theory Spec2Isabelle
  imports Main "HOL-Library.Product_Lexorder"
begin

section \<open>Attendance reconciliation: values, times and strings\<close>

text \<open>
  Calendar dates are proleptic day ordinals (Python's \<open>date.toordinal()\<close>), so that
  \<open>d + timedelta(days=1)\<close> is \<open>d + 1\<close>. A time of day (Python's \<open>datetime.time\<close>, a
  TIME column) is the number of seconds since midnight, below 86400; microseconds and
  time zones are not modelled. A \<open>datetime\<close> is a pair of a date and a time of day,
  compared through \<open>dt_secs\<close>.
\<close>

type_synonym date = int
type_synonym tod = nat
type_synonym datetime = "date \<times> tod"

definition dt_secs :: "datetime \<Rightarrow> int" where
  "dt_secs dt = fst dt * 86400 + int (snd dt)"

text \<open>\<open>datetime.combine(d, t)\<close>.\<close>

definition combine :: "date \<Rightarrow> tod \<Rightarrow> datetime" where
  "combine d t = (d, t)"

text \<open>\<open>datetime(2025, 8, 1).date()\<close>, the floor of every date window.\<close>

definition min_date :: date where
  "min_date = 739464"

text \<open>
  The Python values that reach the classifiers: a \<open>str\<close>, a \<open>datetime.time\<close>, an
  \<open>int\<close>, a \<open>bool\<close>, or \<open>None\<close>.
\<close>

datatype pyval = PStr string | PTime tod | PInt int | PBool bool | PNone

subsection \<open>String primitives of Python\<close>

text \<open>
  A \<open>string\<close> is a list of 8-bit characters: it stands for a Python \<open>str\<close> whose code
  points are all below 256 (Latin-1), which covers the digits, colons and ASCII
  letters of the stored time strings and flags. The primitives below are those of
  Python on such strings.
\<close>

text \<open>
  The whitespace \<open>str.strip()\<close> removes (\<open>str.isspace\<close>): TAB to CR, FS to US,
  space, NEL (0x85) and the no-break space (0xA0).
\<close>

definition is_space :: "char \<Rightarrow> bool" where
  "is_space c =
     (let n = (of_char c :: nat)
      in (9 \<le> n \<and> n \<le> 13) \<or> (28 \<le> n \<and> n \<le> 32) \<or> n = 133 \<or> n = 160)"

definition strip :: "string \<Rightarrow> string" where
  "strip s = rev (dropWhile is_space (rev (dropWhile is_space s)))"

text \<open>
  The whitespace \<open>int()\<close> skips around a literal: TAB to CR, space, NEL and the
  no-break space; FS to US (0x1C to 0x1F) are not skipped and make \<open>int()\<close> raise.
\<close>

definition is_int_space :: "char \<Rightarrow> bool" where
  "is_int_space c =
     (let n = (of_char c :: nat) in (9 \<le> n \<and> n \<le> 13) \<or> n = 32 \<or> n = 133 \<or> n = 160)"

definition int_strip :: "string \<Rightarrow> string" where
  "int_strip s = rev (dropWhile is_int_space (rev (dropWhile is_int_space s)))"

definition is_digit :: "char \<Rightarrow> bool" where
  "is_digit c = (let n = (of_char c :: nat) in 48 \<le> n \<and> n \<le> 57)"

definition digit_val :: "char \<Rightarrow> nat" where
  "digit_val c = (of_char c :: nat) - 48"

text \<open>
  \<open>str.lower()\<close>: the ASCII capitals, and the Latin-1 capitals 0xC0 to 0xDE except
  the multiplication sign 0xD7, move up by 32.
\<close>

definition lower_char :: "char \<Rightarrow> char" where
  "lower_char c =
     (case map_of (zip ''ABCDEFGHIJKLMNOPQRSTUVWXYZ'' ''abcdefghijklmnopqrstuvwxyz'') c of
        Some l \<Rightarrow> l
      | None \<Rightarrow>
          (let n = (of_char c :: nat)
           in if 192 \<le> n \<and> n \<le> 222 \<and> n \<noteq> 215 then char_of (n + 32) else c))"

definition lower :: "string \<Rightarrow> string" where
  "lower s = map lower_char s"

text \<open>\<open>s.split(':')\<close>: always at least one part.\<close>

fun split_colon_acc :: "string \<Rightarrow> string \<Rightarrow> string list" where
  "split_colon_acc acc [] = [rev acc]"
| "split_colon_acc acc (c # cs) =
     (if c = CHR '':'' then rev acc # split_colon_acc [] cs else split_colon_acc (c # acc) cs)"

definition split_colon :: "string \<Rightarrow> string list" where
  "split_colon s = split_colon_acc [] s"

text \<open>
  The digits of an integer literal as \<open>int()\<close> reads them: decimal digits, single
  underscores allowed between digits only. \<open>None\<close> is Python's \<open>ValueError\<close>.
\<close>

fun digits_val :: "string \<Rightarrow> nat \<Rightarrow> bool \<Rightarrow> nat option" where
  "digits_val [] acc last_digit = (if last_digit then Some acc else None)"
| "digits_val (c # cs) acc last_digit =
     (if is_digit c then digits_val cs (10 * acc + digit_val c) True
      else if c = CHR ''_'' \<and> last_digit then digits_val cs acc False
      else None)"

text \<open>\<open>int(s)\<close> on a \<open>str\<close>: surrounding whitespace, an optional sign, digits.\<close>

definition py_int :: "string \<Rightarrow> int option" where
  "py_int s =
     (case int_strip s of
        [] \<Rightarrow> None
      | c # cs \<Rightarrow>
          if c = CHR ''-'' then map_option (\<lambda>n. - int n) (digits_val cs 0 False)
          else if c = CHR ''+'' then map_option int (digits_val cs 0 False)
          else map_option int (digits_val (c # cs) 0 False))"

text \<open>\<open>datetime.time(hour, minute, second)\<close>: \<open>None\<close> is its \<open>ValueError\<close>.\<close>

definition py_time :: "int \<Rightarrow> int \<Rightarrow> int \<Rightarrow> tod option" where
  "py_time h m s =
     (if 0 \<le> h \<and> h \<le> 23 \<and> 0 \<le> m \<and> m \<le> 59 \<and> 0 \<le> s \<and> s \<le> 59
      then Some (nat (h * 3600 + m * 60 + s)) else None)"

section \<open>Punch classifier of redginger.py\<close>

text \<open>
  \<open>parse_time_string\<close>: the body that may raise, then the function with its bare
  \<open>except\<close>, which turns every failure into midnight.
\<close>

definition parse_time_parts :: "string \<Rightarrow> tod option" where
  "parse_time_parts time_str =
     (case split_colon time_str of
        p0 # p1 # rest \<Rightarrow>
          (case py_int p0 of
             None \<Rightarrow> None
           | Some hour \<Rightarrow>
               (case py_int p1 of
                  None \<Rightarrow> None
                | Some minute \<Rightarrow>
                    (case (case rest of p2 # _ \<Rightarrow> py_int p2 | [] \<Rightarrow> Some 0) of
                       None \<Rightarrow> None
                     | Some second \<Rightarrow> py_time hour minute second)))
      | _ \<Rightarrow> None)"

fun parse_time_string :: "pyval \<Rightarrow> tod" where
  "parse_time_string (PStr time_str) =
     (if CHR '':'' \<in> set time_str
      then (case parse_time_parts time_str of Some t \<Rightarrow> t | None \<Rightarrow> 0)
      else 0)"
| "parse_time_string (PTime t) = t"
| "parse_time_string _ = 0"

text \<open>
  \<open>(datetime.combine(datetime.today(), shift_t) + timedelta(minutes=10)).time()\<close>: the
  time of day ten minutes after \<open>shift_t\<close>; \<open>.time()\<close> drops the date, so the sum wraps
  at midnight.
\<close>

definition grace_time :: "tod \<Rightarrow> tod" where
  "grace_time shift_t = (shift_t + 600) mod 86400"

definition calculate_punch_status :: "pyval \<Rightarrow> pyval \<Rightarrow> bool \<Rightarrow> string \<times> string" where
  "calculate_punch_status punch_time shift_time is_checkin =
     (let punch_t = parse_time_string punch_time;
          shift_t = parse_time_string shift_time
      in if is_checkin
         then (if punch_t \<le> grace_time shift_t then (''ontime'', '''') else (''late'', ''late''))
         else (if punch_t \<ge> shift_t then (''auto'', '''') else (''earlycheckout'', ''earlycheckout'')))"

section \<open>Punch classifier of westlands.py\<close>

text \<open>
  One field of \<open>strptime\<close>: the directive's regular expression takes one or two
  decimal digits whose value is at most \<open>mx\<close> (23 for \<open>%H\<close>, 59 for \<open>%M\<close>, 61 for
  \<open>%S\<close>), and the whole string must be consumed.
\<close>

definition strptime_field :: "nat \<Rightarrow> string \<Rightarrow> nat option" where
  "strptime_field mx s =
     (if (length s = 1 \<or> length s = 2) \<and> list_all is_digit s
      then (case digits_val s 0 False of
              Some n \<Rightarrow> if n \<le> mx then Some n else None
            | None \<Rightarrow> None)
      else None)"

text \<open>\<open>datetime.strptime(s, '%H:%M:%S').time()\<close>; \<open>None\<close> is \<open>ValueError\<close>.\<close>

definition strptime_hms :: "string \<Rightarrow> tod option" where
  "strptime_hms s =
     (case split_colon s of
        [h, m, sec] \<Rightarrow>
          (case (strptime_field 23 h, strptime_field 59 m, strptime_field 61 sec) of
             (Some hh, Some mm, Some ss) \<Rightarrow> py_time (int hh) (int mm) (int ss)
           | _ \<Rightarrow> None)
      | _ \<Rightarrow> None)"

text \<open>\<open>datetime.strptime(s, '%H:%M').time()\<close>.\<close>

definition strptime_hm :: "string \<Rightarrow> tod option" where
  "strptime_hm s =
     (case split_colon s of
        [h, m] \<Rightarrow>
          (case (strptime_field 23 h, strptime_field 59 m) of
             (Some hh, Some mm) \<Rightarrow> py_time (int hh) (int mm) 0
           | _ \<Rightarrow> None)
      | _ \<Rightarrow> None)"

text \<open>The nested \<open>parse_time\<close>: \<open>HH:MM:SS\<close> first, then \<open>HH:MM\<close>; \<open>None\<close> is the
  \<open>ValueError\<close> of the second attempt, which leaves the function.\<close>

definition parse_time :: "string \<Rightarrow> tod option" where
  "parse_time time_str =
     (let s = strip time_str in
      case strptime_hms s of Some t \<Rightarrow> Some t | None \<Rightarrow> strptime_hm s)"

text \<open>
  \<open>str.isdigit()\<close>: a non-empty string of the decimal digits and of the superscript
  digits 0xB2, 0xB3 and 0xB9, which \<open>int()\<close> does not read.
\<close>

definition is_py_digit :: "char \<Rightarrow> bool" where
  "is_py_digit c =
     (let n = (of_char c :: nat) in (48 \<le> n \<and> n \<le> 57) \<or> n = 178 \<or> n = 179 \<or> n = 185)"

definition isdigit :: "string \<Rightarrow> bool" where
  "isdigit s = (s \<noteq> [] \<and> list_all is_py_digit s)"

text \<open>
  The conversion of \<open>overtime_allowed\<close> to a boolean; \<open>None\<close> is the \<open>ValueError\<close> of
  \<open>int(val)\<close> on a string that \<open>isdigit\<close> accepts and \<open>int()\<close> does not.
\<close>

fun overtime_flag :: "pyval \<Rightarrow> bool option" where
  "overtime_flag (PStr overtime_allowed) =
     (let val = lower (strip overtime_allowed) in
      if isdigit val then (case py_int val of Some n \<Rightarrow> Some (n \<noteq> 0) | None \<Rightarrow> None)
      else Some (val \<in> set [''yes'', ''true'', ''1'']))"
| "overtime_flag (PInt n) = Some (n \<noteq> 0)"
| "overtime_flag (PBool b) = Some b"
| "overtime_flag (PTime t) = Some True"
| "overtime_flag PNone = Some False"

text \<open>
  The body of the \<open>try\<close> block of \<open>calculate_punch_status\<close>. The outer \<open>option\<close> is
  an exception (\<open>None\<close>); the inner one is the value returned, where \<open>None\<close> is
  Python's \<open>None\<close> of a function that falls off its end. For a checkout the flag is
  converted before the times are compared.
\<close>

definition w_punch_status_body ::
  "string \<Rightarrow> string \<Rightarrow> string \<Rightarrow> string option \<Rightarrow> pyval \<Rightarrow> (string \<times> string) option option" where
  "w_punch_status_body punch_time shift_start_time punch_type shift_end_time overtime_allowed =
     (case parse_time punch_time of
        None \<Rightarrow> None
      | Some punch_time_obj \<Rightarrow>
          if lower punch_type = ''checkin'' then
            (case parse_time shift_start_time of
               None \<Rightarrow> None
             | Some shift_start_time_obj \<Rightarrow>
                 if punch_time_obj \<le> shift_start_time_obj
                 then Some (Some (''ontime'', ''ontime''))
                 else Some (Some (''late'', ''late'')))
          else if lower punch_type = ''checkout'' then
            (case shift_end_time of
               None \<Rightarrow> Some (Some (''manual'', ''manual''))
             | Some e \<Rightarrow>
                 if e = [] then Some (Some (''manual'', ''manual''))
                 else
                   (case parse_time e of
                      None \<Rightarrow> None
                    | Some shift_end_time_obj \<Rightarrow>
                        (case overtime_flag overtime_allowed of
                           None \<Rightarrow> None
                         | Some flag \<Rightarrow>
                             if punch_time_obj < shift_end_time_obj
                             then Some (Some (''earlycheckout'', ''earlycheckout''))
                             else if punch_time_obj \<ge> shift_end_time_obj
                             then (if flag
                                   then Some (Some (''overtime'', ''overtime''))
                                   else Some (Some (''manual'', ''manual'')))
                             else Some None)))
          else Some None)"

text \<open>\<open>calculate_punch_status\<close> of westlands.py, with its \<open>except Exception\<close>.\<close>

definition w_calculate_punch_status ::
  "string \<Rightarrow> string \<Rightarrow> string \<Rightarrow> string option \<Rightarrow> pyval \<Rightarrow> (string \<times> string) option" where
  "w_calculate_punch_status punch_time shift_start_time punch_type shift_end_time overtime_allowed =
     (case w_punch_status_body punch_time shift_start_time punch_type shift_end_time overtime_allowed of
        Some r \<Rightarrow> r
      | None \<Rightarrow>
          if lower punch_type = ''checkin'' then Some (''late'', ''late'')
          else Some (''manual'', ''manual''))"

section \<open>The tables\<close>

text \<open>
  A row of the event source \<open>tymeplushr_attendance_logs\<close>. The same record stands
  for the dictionaries the reconciler passes around (\<open>attendance_record\<close>); a
  synthesized checkout has no device and no migration flag, and neither is read.
\<close>

record punch_event =
  user_id :: string
  punch_date :: date
  punch_time :: tod
  punch_type :: string
  device_id :: string
  migration_status :: string

text \<open>A row of \<open>biometrics_master\<close>, as \<open>get_biometrics_data\<close> selects it; the
  shift times and the department are the strings \<open>str()\<close> gives.\<close>

record biometrics =
  b_shiftstarttime :: string
  b_shiftendtime :: string
  b_clientid :: string
  b_employeeid :: string
  b_fullname :: string
  b_reportingmanager :: string
  b_userid :: string
  b_basedepartmentid :: string
  b_overtimestatus :: string
  b_statusid :: string

text \<open>
  A row of the session table (\<open>test_tymeplususerpunchactions\<close> in redginger.py,
  \<open>tymeplususerpunchactions\<close> in westlands.py). The types of the date, time and
  timestamp columns are parameters: redginger.py compares them, westlands.py only
  stores what it is given. Coordinates are in units of \<open>10\<^sup>-\<^sup>7\<close> degree.
\<close>

record ('d, 't, 'dt) session =
  userpunchactionid :: nat
  clientid :: string
  employeeid :: string
  fullname :: string
  shiftendtime :: string
  shiftstarttime :: string
  statusid :: int
  reportingmanager :: string
  checkindate :: "'d option"
  checkindatetime :: "'dt option"
  checkintime :: "'t option"
  loginlatitude :: int
  loginlocationid :: int
  loginlocationname :: string
  loginlongitude :: int
  overtimeid :: int
  punchinid :: int
  punchinreason :: string
  punchinstatus :: string
  skipdistancechecking :: bool
  userid :: string
  departmentid :: string
  departmentname :: string
  checkoutdate :: "'d option"
  checkouttime :: "'t option"
  checkoutdatetime :: "'dt option"
  punchoutid :: "int option"
  logoutlatitude :: "int option"
  logoutlocationid :: "int option"
  logoutlocationname :: "string option"
  logoutlongitude :: "int option"
  punchoutreason :: "string option"
  punchoutstatus :: "string option"

type_synonym rg_session = "(date, tod, datetime) session"

text \<open>The \<open>SET ... = NULL\<close> list of the anomaly repairs: the ten checkout columns.\<close>

definition clear_checkout :: "('d, 't, 'dt, 'z) session_scheme \<Rightarrow> ('d, 't, 'dt, 'z) session_scheme" where
  "clear_checkout r =
     r\<lparr>checkoutdate := None, checkouttime := None, checkoutdatetime := None,
       punchoutid := None, logoutlatitude := None, logoutlocationid := None,
       logoutlocationname := None, logoutlongitude := None,
       punchoutreason := None, punchoutstatus := None\<rparr>"

subsection \<open>SQL helpers\<close>

text \<open>\<open>ORDER BY ... LIMIT 1\<close>: the first row in the order \<open>le\<close>, the earlier row of the
  table among equals.\<close>

fun first_by :: "('a \<Rightarrow> 'a \<Rightarrow> bool) \<Rightarrow> 'a list \<Rightarrow> 'a option" where
  "first_by le [] = None"
| "first_by le (x # xs) =
     (case first_by le xs of
        None \<Rightarrow> Some x
      | Some y \<Rightarrow> if le x y then Some x else Some y)"

text \<open>The keys of a \<open>GROUP BY ... HAVING COUNT(*) > 1\<close>, each once.\<close>

fun uniq :: "'a list \<Rightarrow> 'a list" where
  "uniq [] = []"
| "uniq (x # xs) = x # uniq (filter (\<lambda>y. y \<noteq> x) xs)"

definition having_count_gt1 :: "'k list \<Rightarrow> 'k list" where
  "having_count_gt1 ks = filter (\<lambda>k. length (filter (\<lambda>k'. k' = k) ks) > 1) (uniq ks)"

text \<open>
  \<open>DELETE ... WHERE cond AND userpunchactionid NOT IN (SELECT MIN(userpunchactionid)
  ... WHERE cond)\<close>. Over no row the minimum is NULL and nothing is deleted.
\<close>

definition delete_not_min ::
  "(('d, 't, 'dt) session \<Rightarrow> bool) \<Rightarrow> ('d, 't, 'dt) session list \<Rightarrow> ('d, 't, 'dt) session list" where
  "delete_not_min cond rows =
     (case map userpunchactionid (filter cond rows) of
        [] \<Rightarrow> rows
      | i # ids \<Rightarrow> filter (\<lambda>r. \<not> (cond r \<and> userpunchactionid r \<noteq> fold min ids i)) rows)"

section \<open>The reconciler of redginger.py\<close>

text \<open>
  The state of an \<open>AttendanceProcessor\<close>: the two tables it writes, the serial of
  the session table's key, and its two attributes \<open>processed_records\<close> and
  \<open>last_sync_time\<close>. The environment holds what a cycle only reads: the master data
  and the clock (\<open>datetime.now()\<close>, taken once for the cycle). Failures of the
  database itself are not modelled.
\<close>

type_synonym record_key = "string \<times> date \<times> tod \<times> string"

record rg_state =
  src_logs :: "punch_event list"
  tgt_rows :: "rg_session list"
  next_id :: nat
  processed_records :: "record_key set"
  last_sync_time :: "datetime option"

record env =
  biometrics_master :: "biometrics list"
  now :: datetime

definition DEPARTMENT_MAP :: "(string \<times> string) list" where
  "DEPARTMENT_MAP =
     [(''1'', ''Service Bar''), (''2'', ''Service Banda''), (''3'', ''Kitchen''),
      (''4'', ''Service Restaurant''), (''5'', ''Back Office''), (''6'', ''Management'')]"

text \<open>\<open>f"{user_id}_{punch_date}_{punch_time}_{punch_type}"\<close>, kept as the tuple of
  its four parts.\<close>

definition create_record_key :: "string \<Rightarrow> date \<Rightarrow> tod \<Rightarrow> string \<Rightarrow> record_key" where
  "create_record_key u d t k = (u, d, t, k)"

definition resolve_overtime_flag :: "biometrics \<Rightarrow> int" where
  "resolve_overtime_flag b = (if lower (b_overtimestatus b) = ''yes'' then 1 else 0)"

definition get_biometrics_data :: "env \<Rightarrow> string \<Rightarrow> biometrics option" where
  "get_biometrics_data e u =
     find (\<lambda>b. b_employeeid b = u \<and> b_statusid b = ''1'') (biometrics_master e)"

text \<open>The pending events of a date range, in the order of the query.\<close>

definition get_attendance_logs_by_date_range :: "punch_event list \<Rightarrow> date \<Rightarrow> date \<Rightarrow> punch_event list" where
  "get_attendance_logs_by_date_range logs start_date end_date =
     (let start_date = (if start_date < min_date then min_date else start_date) in
      sort_key (\<lambda>r. (punch_date r, punch_time r, if punch_type r = ''checkin'' then 1 else 2 :: nat))
        (filter (\<lambda>r. punch_date r \<ge> start_date \<and> punch_date r \<le> end_date
                       \<and> migration_status r = ''No'') logs))"

subsection \<open>Anomaly scanner\<close>

definition time_anomaly :: "rg_session \<Rightarrow> bool" where
  "time_anomaly r =
     (case (checkintime r, checkouttime r, checkindate r, checkoutdate r) of
        (Some ci, Some co, Some di, Some dco) \<Rightarrow> di = dco \<and> co < ci \<and> di \<ge> min_date
      | _ \<Rightarrow> False)"

definition early_checkout_anomaly :: "rg_session \<Rightarrow> bool" where
  "early_checkout_anomaly r =
     (case (checkintime r, checkouttime r, checkindate r, checkoutdate r) of
        (Some ci, Some co, Some di, Some dco) \<Rightarrow>
          di = dco \<and> co < 21600 \<and> ci \<ge> 43200 \<and> di \<ge> min_date
      | _ \<Rightarrow> False)"

text \<open>One \<open>UPDATE ... SET (checkout columns) = NULL WHERE userpunchactionid = %s\<close>.\<close>

definition clear_checkout_by_id :: "nat \<Rightarrow> rg_session list \<Rightarrow> rg_session list" where
  "clear_checkout_by_id i rows =
     map (\<lambda>r. if userpunchactionid r = i then clear_checkout r else r) rows"

text \<open>
  \<open>validate_and_fix_time_anomalies\<close>: each pass selects its anomalies, then updates
  them one by one by key; the second pass reads the table the first one left.
\<close>

definition validate_and_fix_time_anomalies :: "rg_session list \<Rightarrow> rg_session list" where
  "validate_and_fix_time_anomalies rows =
     (let time_anomalies = filter time_anomaly rows;
          rows1 = fold (\<lambda>anomaly. clear_checkout_by_id (userpunchactionid anomaly)) time_anomalies rows;
          early_checkouts = filter early_checkout_anomaly rows1
      in fold (\<lambda>early_checkout. clear_checkout_by_id (userpunchactionid early_checkout))
           early_checkouts rows1)"

subsection \<open>Mismatched data\<close>

definition orphaned_checkout :: "rg_session \<Rightarrow> bool" where
  "orphaned_checkout r =
     (checkouttime r \<noteq> None \<and> checkintime r = None \<and>
      (case checkoutdate r of Some d \<Rightarrow> d \<ge> min_date | None \<Rightarrow> False))"

definition find_and_fix_mismatched_data :: "rg_session list \<Rightarrow> rg_session list" where
  "find_and_fix_mismatched_data rows =
     (let orphaned_checkouts = filter orphaned_checkout rows;
          rows1 = fold (\<lambda>orphan. filter (\<lambda>r. userpunchactionid r \<noteq> userpunchactionid orphan))
                    orphaned_checkouts rows;
          duplicate_checkins =
            having_count_gt1
              (map (\<lambda>r. (employeeid r, checkindate r))
                 (filter (\<lambda>r. checkintime r \<noteq> None \<and>
                               (case checkindate r of Some d \<Rightarrow> d \<ge> min_date | None \<Rightarrow> False)) rows1))
      in fold (\<lambda>(e, d). delete_not_min
                 (\<lambda>r. employeeid r = e \<and> d \<noteq> None \<and> checkindate r = d \<and> checkintime r \<noteq> None))
           duplicate_checkins rows1)"

subsection \<open>Deduplication pass\<close>

text \<open>
  \<open>validate_and_cleanup_duplicates\<close>. The groups of a \<open>GROUP BY\<close> include the one
  of NULL dates, but \<open>checkindate = NULL\<close> selects no row to delete.
\<close>

definition validate_and_cleanup_duplicates :: "rg_session list \<Rightarrow> rg_session list" where
  "validate_and_cleanup_duplicates rows =
     (let duplicate_checkins =
            having_count_gt1
              (map (\<lambda>r. (employeeid r, checkindate r)) (filter (\<lambda>r. checkouttime r = None) rows));
          rows1 = fold (\<lambda>(e, d). delete_not_min
                          (\<lambda>r. employeeid r = e \<and> d \<noteq> None \<and> checkindate r = d \<and> checkouttime r = None))
                    duplicate_checkins rows;
          duplicate_checkouts =
            having_count_gt1
              (map (\<lambda>r. (employeeid r, checkoutdate r)) (filter (\<lambda>r. checkouttime r \<noteq> None) rows1))
      in fold (\<lambda>(e, d). delete_not_min
                 (\<lambda>r. employeeid r = e \<and> d \<noteq> None \<and> checkoutdate r = d \<and> checkouttime r \<noteq> None))
           duplicate_checkouts rows1)"

subsection \<open>Matching checkins and checkouts\<close>

text \<open>The value Python reads from a nullable TIME column.\<close>

definition time_val :: "tod option \<Rightarrow> pyval" where
  "time_val t = (case t of Some x \<Rightarrow> PTime x | None \<Rightarrow> PNone)"

definition validate_checkout_time_logic :: "date \<Rightarrow> pyval \<Rightarrow> date \<Rightarrow> pyval \<Rightarrow> bool" where
  "validate_checkout_time_logic checkin_date checkin_time checkout_date checkout_time =
     (let checkin_dt = combine checkin_date (parse_time_string checkin_time);
          checkout_dt = combine checkout_date (parse_time_string checkout_time)
      in if dt_secs checkout_dt \<le> dt_secs checkin_dt then False
         else if checkin_date = checkout_date \<and> dt_secs checkout_dt - dt_secs checkin_dt < 3600
              then False
         else True)"

definition find_checkout_for_checkin :: "env \<Rightarrow> punch_event list \<Rightarrow> string \<Rightarrow> date \<Rightarrow> tod \<Rightarrow> punch_event option" where
  "find_checkout_for_checkin e logs u checkin_date checkin_time =
     (let current_date = fst (now e) in
      case first_by (\<lambda>a b. punch_time a \<le> punch_time b)
             (filter (\<lambda>r. user_id r = u \<and> punch_type r = ''checkout'' \<and>
                           punch_date r = checkin_date \<and> punch_time r > checkin_time) logs) of
        Some same_day_checkout \<Rightarrow> Some same_day_checkout
      | None \<Rightarrow>
          if checkin_date < current_date
          then first_by (\<lambda>a b. punch_time a \<le> punch_time b)
                 (filter (\<lambda>r. user_id r = u \<and> punch_type r = ''checkout'' \<and>
                               punch_date r = checkin_date + 1) logs)
          else None)"

text \<open>\<open>ORDER BY checkindate DESC, checkintime DESC\<close> within one date: later times
  first, NULL before all.\<close>

definition checkintime_desc :: "rg_session \<Rightarrow> rg_session \<Rightarrow> bool" where
  "checkintime_desc a b =
     (case (checkintime a, checkintime b) of
        (None, _) \<Rightarrow> True
      | (Some x, None) \<Rightarrow> False
      | (Some x, Some y) \<Rightarrow> x \<ge> y)"

fun find_checkin_search :: "rg_session list \<Rightarrow> string \<Rightarrow> date \<Rightarrow> tod \<Rightarrow> date list \<Rightarrow> rg_session option" where
  "find_checkin_search rows u checkout_date checkout_time [] = None"
| "find_checkin_search rows u checkout_date checkout_time (search_date # search_dates) =
     (case first_by checkintime_desc
             (filter (\<lambda>r. employeeid r = u \<and> checkindate r = Some search_date \<and>
                           checkouttime r = None) rows) of
        None \<Rightarrow> find_checkin_search rows u checkout_date checkout_time search_dates
      | Some checkin_record \<Rightarrow>
          if dt_secs (combine checkout_date (parse_time_string (PTime checkout_time)))
             > dt_secs (combine search_date (parse_time_string (time_val (checkintime checkin_record))))
          then Some checkin_record
          else find_checkin_search rows u checkout_date checkout_time search_dates)"

definition find_checkin_for_checkout :: "rg_session list \<Rightarrow> string \<Rightarrow> date \<Rightarrow> tod \<Rightarrow> rg_session option" where
  "find_checkin_for_checkout rows u checkout_date checkout_time =
     find_checkin_search rows u checkout_date checkout_time
       [checkout_date, checkout_date - 1, checkout_date - 2]"

subsection \<open>Applying a checkout\<close>

text \<open>The status and reason \<open>process_checkout\<close> derives; \<open>overtime_allowed\<close> is the
  session's \<open>overtimeid\<close>, true when it is not zero.\<close>

definition punchout_status_reason :: "bool \<Rightarrow> datetime \<Rightarrow> datetime \<Rightarrow> int \<Rightarrow> string \<times> string" where
  "punchout_status_reason force_auto punch_dt actual_shift_end overtime_allowed =
     (if force_auto then (''auto'', '''')
      else if dt_secs punch_dt < dt_secs actual_shift_end then (''earlycheckout'', ''earlycheckout'')
      else (if overtime_allowed \<noteq> 0 then ''overtime'' else ''manual'', ''''))"

text \<open>The \<open>UPDATE\<close> of \<open>process_checkout\<close>, with the \<open>DEFAULT_VALUES\<close> of the file.\<close>

definition write_checkout ::
  "punch_event \<Rightarrow> datetime \<Rightarrow> string \<Rightarrow> string \<Rightarrow> nat \<Rightarrow> rg_session list \<Rightarrow> rg_session list" where
  "write_checkout attendance_record punch_dt punchout_reason punchout_status i rows =
     map (\<lambda>r. if userpunchactionid r = i
               then r\<lparr>checkouttime := Some (punch_time attendance_record),
                      checkoutdate := Some (punch_date attendance_record),
                      checkoutdatetime := Some punch_dt,
                      punchoutid := Some 2,
                      logoutlatitude := Some (- 12605476),
                      logoutlocationid := Some 2,
                      logoutlocationname := Some ''Red Ginger Eatery Ltd'',
                      logoutlongitude := Some 368167960,
                      punchoutreason := Some punchout_reason,
                      punchoutstatus := Some punchout_status\<rparr>
               else r) rows"

definition process_checkout :: "env \<Rightarrow> punch_event \<Rightarrow> bool \<Rightarrow> rg_state \<Rightarrow> rg_state \<times> bool" where
  "process_checkout e attendance_record force_auto st =
     (let u = user_id attendance_record;
          d = punch_date attendance_record;
          t = punch_time attendance_record;
          record_key = create_record_key u d t ''checkout''
      in if record_key \<in> processed_records st then (st, True)
         else
           (case get_biometrics_data e u of
              None \<Rightarrow> (st, False)
            | Some biometrics \<Rightarrow>
                if (\<exists>r \<in> set (tgt_rows st).
                      employeeid r = u \<and> checkoutdate r = Some d \<and> checkouttime r \<noteq> None)
                then (st\<lparr>processed_records := insert record_key (processed_records st)\<rparr>, True)
                else
                  (case find_checkin_for_checkout (tgt_rows st) u d t of
                     None \<Rightarrow> (st, False)
                   | Some checkin_record \<Rightarrow>
                       (case checkindate checkin_record of
                          None \<Rightarrow> (st, False)
                        | Some checkin_date \<Rightarrow>
                            if \<not> validate_checkout_time_logic checkin_date
                                   (time_val (checkintime checkin_record)) d (PTime t)
                            then (st, False)
                            else
                              (let actual_shift_end =
                                     combine checkin_date
                                       (parse_time_string (PStr (b_shiftendtime biometrics)));
                                   punch_dt = combine d (parse_time_string (PTime t));
                                   sr = punchout_status_reason force_auto punch_dt actual_shift_end
                                          (overtimeid checkin_record)
                               in (st\<lparr>tgt_rows :=
                                         write_checkout attendance_record punch_dt (snd sr) (fst sr)
                                           (userpunchactionid checkin_record) (tgt_rows st),
                                       processed_records :=
                                         insert record_key (processed_records st)\<rparr>, True))))))"

subsection \<open>Applying a checkin\<close>

text \<open>The literal \<open>"05:00:00"\<close> of the forced checkout, as the time of day it denotes
  in the record key, in \<open>parse_time_string\<close> and in the TIME column.\<close>

definition auto_checkout_time :: tod where
  "auto_checkout_time = 18000"

definition auto_checkout_record :: "string \<Rightarrow> date \<Rightarrow> punch_event" where
  "auto_checkout_record u auto_checkout_date =
     \<lparr>user_id = u, punch_date = auto_checkout_date, punch_time = auto_checkout_time,
      punch_type = ''checkout'', device_id = [], migration_status = []\<rparr>"

text \<open>The row \<open>process_checkin\<close> inserts; the columns it does not name are NULL.\<close>

definition insert_data :: "nat \<Rightarrow> biometrics \<Rightarrow> punch_event \<Rightarrow> string \<times> string \<Rightarrow> rg_session" where
  "insert_data i biometrics attendance_record sr =
     \<lparr>userpunchactionid = i,
      clientid = b_clientid biometrics,
      employeeid = b_employeeid biometrics,
      fullname = b_fullname biometrics,
      shiftendtime = b_shiftendtime biometrics,
      shiftstarttime = b_shiftstarttime biometrics,
      statusid = 1,
      reportingmanager = b_reportingmanager biometrics,
      checkindate = Some (punch_date attendance_record),
      checkindatetime = Some (punch_date attendance_record, 0),
      checkintime = Some (punch_time attendance_record),
      loginlatitude = - 12605476,
      loginlocationid = 2,
      loginlocationname = ''Red Ginger Eatery Ltd'',
      loginlongitude = 368167960,
      overtimeid = resolve_overtime_flag biometrics,
      punchinid = 1,
      punchinreason = snd sr,
      punchinstatus = fst sr,
      skipdistancechecking = False,
      userid = b_userid biometrics,
      departmentid = b_basedepartmentid biometrics,
      departmentname =
        (case map_of DEPARTMENT_MAP (b_basedepartmentid biometrics) of
           Some n \<Rightarrow> n | None \<Rightarrow> ''Unknown''),
      checkoutdate = None, checkouttime = None, checkoutdatetime = None,
      punchoutid = None, logoutlatitude = None, logoutlocationid = None,
      logoutlocationname = None, logoutlongitude = None,
      punchoutreason = None, punchoutstatus = None\<rparr>"

text \<open>\<open>UPDATE tymeplushr_attendance_logs SET migration_status = 'Yes' WHERE ...\<close>.\<close>

definition mark_migrated :: "punch_event \<Rightarrow> punch_event list \<Rightarrow> punch_event list" where
  "mark_migrated a logs =
     map (\<lambda>r. if user_id r = user_id a \<and> punch_date r = punch_date a \<and>
                  punch_time r = punch_time a \<and> punch_type r = punch_type a
               then r\<lparr>migration_status := ''Yes''\<rparr> else r) logs"

definition process_checkin :: "env \<Rightarrow> punch_event \<Rightarrow> rg_state \<Rightarrow> rg_state \<times> bool" where
  "process_checkin e attendance_record st =
     (let u = user_id attendance_record;
          d = punch_date attendance_record;
          t = punch_time attendance_record;
          record_key = create_record_key u d t ''checkin''
      in if record_key \<in> processed_records st then (st, True)
         else
           (case get_biometrics_data e u of
              None \<Rightarrow> (st, False)
            | Some biometrics \<Rightarrow>
                if (\<exists>r \<in> set (tgt_rows st). employeeid r = u \<and> checkindate r = Some d)
                then (st\<lparr>processed_records := insert record_key (processed_records st)\<rparr>, True)
                else
                  (let sr = calculate_punch_status (PTime t) (PStr (b_shiftstarttime biometrics)) True;
                       st1 = st\<lparr>tgt_rows := tgt_rows st @ [insert_data (next_id st) biometrics attendance_record sr],
                                next_id := Suc (next_id st),
                                src_logs := mark_migrated attendance_record (src_logs st),
                                processed_records := insert record_key (processed_records st)\<rparr>;
                       current_date = fst (now e)
                   in if d = current_date
                      then (case find_checkout_for_checkin e (src_logs st1) u d t of
                              Some checkout_record \<Rightarrow> (fst (process_checkout e checkout_record False st1), True)
                            | None \<Rightarrow> (st1, True))
                      else (case find_checkout_for_checkin e (src_logs st1) u d t of
                              Some checkout_record \<Rightarrow> (fst (process_checkout e checkout_record False st1), True)
                            | None \<Rightarrow>
                                (let auto_checkout_date = d + 1 in
                                 if dt_secs (now e) > dt_secs (combine auto_checkout_date auto_checkout_time)
                                 then (fst (process_checkout e (auto_checkout_record u auto_checkout_date) True st1), True)
                                 else (st1, True))))))"

subsection \<open>The passes of a cycle\<close>

text \<open>The keys of a dictionary filled in one loop, in the order of first insertion.\<close>

definition users_of :: "punch_event list \<Rightarrow> string list" where
  "users_of records = uniq (map user_id records)"

text \<open>The loop of \<open>process_attendance_by_date\<close> over one user's sorted records,
  with its local set \<open>processed_checkins\<close>.\<close>

fun process_user_records ::
  "env \<Rightarrow> string \<Rightarrow> punch_event list \<Rightarrow> (string \<times> date) set \<Rightarrow> rg_state \<Rightarrow> rg_state" where
  "process_user_records e u [] processed_checkins st = st"
| "process_user_records e u (record # rest) processed_checkins st =
     (if lower (punch_type record) = ''checkin'' then
        (if (u, punch_date record) \<notin> processed_checkins
         then (let res = process_checkin e record st in
               process_user_records e u rest
                 (if snd res then insert (u, punch_date record) processed_checkins
                  else processed_checkins)
                 (fst res))
         else process_user_records e u rest processed_checkins st)
      else if lower (punch_type record) = ''checkout''
      then process_user_records e u rest processed_checkins (fst (process_checkout e record False st))
      else process_user_records e u rest processed_checkins st)"

definition process_attendance_by_date :: "env \<Rightarrow> date \<Rightarrow> rg_state \<Rightarrow> rg_state" where
  "process_attendance_by_date e target_date st =
     (let end_date = target_date + 1;
          all_records = get_attendance_logs_by_date_range (src_logs st) target_date end_date
      in fold (\<lambda>u. process_user_records e u
                      (sort_key (\<lambda>x. (punch_date x, punch_time x,
                                       if lower (punch_type x) = ''checkin'' then 0 else 1 :: nat))
                         (filter (\<lambda>r. user_id r = u) all_records))
                      {})
           (users_of all_records) st)"

text \<open>The loop of \<open>handle_cross_day_scenarios\<close> over one user's sorted records: for
  a checkin at index \<open>i\<close> the inner loop looks at the indices \<open>i + 1\<close> to \<open>i + 9\<close> and
  stops at the first checkout of a later date.\<close>

fun cross_day_user :: "env \<Rightarrow> punch_event list \<Rightarrow> rg_state \<Rightarrow> rg_state" where
  "cross_day_user e [] st = st"
| "cross_day_user e (record # rest) st =
     (if lower (punch_type record) = ''checkin'' then
        (case find (\<lambda>c. lower (punch_type c) = ''checkout'' \<and> punch_date c > punch_date record)
                (take 9 rest) of
           None \<Rightarrow> cross_day_user e rest st
         | Some checkout_record \<Rightarrow>
             if dt_secs (combine (punch_date checkout_record)
                           (parse_time_string (PTime (punch_time checkout_record))))
                > dt_secs (combine (punch_date record) (parse_time_string (PTime (punch_time record))))
             then (let res = process_checkin e record st in
                   cross_day_user e rest
                     (if snd res then fst (process_checkout e checkout_record False (fst res))
                      else fst res))
             else cross_day_user e rest st)
      else cross_day_user e rest st)"

definition handle_cross_day_scenarios :: "env \<Rightarrow> date \<Rightarrow> date \<Rightarrow> rg_state \<Rightarrow> rg_state" where
  "handle_cross_day_scenarios e start_date end_date st =
     (let all_records = get_attendance_logs_by_date_range (src_logs st) start_date end_date
      in fold (\<lambda>u. cross_day_user e
                      (sort_key (\<lambda>x. (punch_date x, punch_time x))
                         (filter (\<lambda>r. user_id r = u) all_records)))
           (users_of all_records) st)"

definition get_date_range_to_process :: "env \<Rightarrow> rg_state \<Rightarrow> date \<times> date" where
  "get_date_range_to_process e st =
     (let start_date = (case last_sync_time st of
                          Some t \<Rightarrow> max (fst t) min_date
                        | None \<Rightarrow> min_date);
          end_date = fst (now e);
          start_date = (if start_date < min_date then min_date else start_date)
      in (start_date, end_date))"

text \<open>The loop of \<open>process_auto_checkouts_for_incomplete_records\<close> over the open
  sessions selected before it starts.\<close>

fun auto_checkout_loop :: "env \<Rightarrow> rg_session list \<Rightarrow> rg_state \<Rightarrow> rg_state" where
  "auto_checkout_loop e [] st = st"
| "auto_checkout_loop e (incomplete_record # rest) st =
     (case checkindate incomplete_record of
        None \<Rightarrow> auto_checkout_loop e rest st
      | Some checkin_date \<Rightarrow>
          (let employee_id = employeeid incomplete_record;
               auto_checkout_date = checkin_date + 1
           in if dt_secs (now e) > dt_secs (combine auto_checkout_date auto_checkout_time) then
                (case first_by (\<lambda>a b. (punch_date a, punch_time a) \<le> (punch_date b, punch_time b))
                        (filter (\<lambda>r. user_id r = employee_id \<and> punch_type r = ''checkout'' \<and>
                                      punch_date r \<ge> checkin_date \<and> punch_date r \<le> auto_checkout_date \<and>
                                      migration_status r = ''No'') (src_logs st)) of
                   Some actual_checkout \<Rightarrow>
                     (let res = process_checkout e actual_checkout False st in
                      auto_checkout_loop e rest
                        (if snd res
                         then (fst res)\<lparr>src_logs := mark_migrated actual_checkout (src_logs (fst res))\<rparr>
                         else fst res))
                 | None \<Rightarrow>
                     if (\<exists>r \<in> set (tgt_rows st).
                           employeeid r = employee_id \<and> checkoutdate r = Some auto_checkout_date \<and>
                           checkouttime r = Some auto_checkout_time)
                     then auto_checkout_loop e rest st
                     else auto_checkout_loop e rest
                            (fst (process_checkout e (auto_checkout_record employee_id auto_checkout_date)
                                    True st)))
              else auto_checkout_loop e rest st))"

definition process_auto_checkouts_for_incomplete_records :: "env \<Rightarrow> rg_state \<Rightarrow> rg_state" where
  "process_auto_checkouts_for_incomplete_records e st =
     (let current_date = fst (now e);
          incomplete_records =
            sort_key (\<lambda>r. case checkindate r of Some d \<Rightarrow> - d | None \<Rightarrow> 0)
              (filter (\<lambda>r. checkouttime r = None \<and>
                            (case checkindate r of
                               Some d \<Rightarrow> d \<ge> min_date \<and> d < current_date
                             | None \<Rightarrow> False)) (tgt_rows st))
      in auto_checkout_loop e incomplete_records st)"

text \<open>The \<open>while current_date <= end_date\<close> loop of \<open>sync_incremental\<close>.\<close>

function process_dates :: "env \<Rightarrow> date \<Rightarrow> date \<Rightarrow> rg_state \<Rightarrow> rg_state" where
  "process_dates e current_date end_date st =
     (if current_date \<le> end_date
      then process_dates e (current_date + 1) end_date (process_attendance_by_date e current_date st)
      else st)"
  by pat_completeness auto
termination
  by (relation "measure (\<lambda>(e, current_date, end_date, st). nat (end_date + 1 - current_date))") auto

definition sync_incremental :: "env \<Rightarrow> rg_state \<Rightarrow> rg_state" where
  "sync_incremental e st =
     (let st1 = st\<lparr>tgt_rows := find_and_fix_mismatched_data (tgt_rows st)\<rparr>;
          st2 = st1\<lparr>tgt_rows := validate_and_fix_time_anomalies (tgt_rows st1)\<rparr>;
          range = get_date_range_to_process e st2;
          st3 = handle_cross_day_scenarios e (fst range) (snd range) st2;
          st4 = process_dates e (fst range) (snd range) st3;
          st5 = process_auto_checkouts_for_incomplete_records e st4;
          st6 = st5\<lparr>tgt_rows := validate_and_cleanup_duplicates (tgt_rows st5)\<rparr>
      in st6\<lparr>last_sync_time := Some (now e)\<rparr>)"

section \<open>The pipeline of westlands.py\<close>

text \<open>
  A row of the event source as \<open>fetch_attendance_logs\<close> selects it, and the state of
  the pipeline: the event source and the session table \<open>tymeplususerpunchactions\<close>.
  Dates and times are the strings Python holds; the pipeline only compares dates for
  equality and hands times to its classifier. The environment holds the master data,
  the two shift lookups and the time of day of \<open>datetime.now()\<close>.
\<close>

record w_log =
  w_user_id :: string
  w_punch_date :: string
  w_punch_time :: string
  w_punch_type :: string
  w_migration_status :: string

type_synonym w_session = "(string, string, string) session"

record shift_data =
  starttime :: string
  endtime :: string

record w_state =
  w_logs :: "w_log list"
  w_rows :: "w_session list"
  w_next_id :: nat

record w_env =
  w_biometrics_master :: "biometrics list"
  get_shift_allocation :: "string \<Rightarrow> string \<Rightarrow> nat option"
  get_shift_management :: "nat \<Rightarrow> shift_data option"
  w_current_time :: tod

definition W_DEPARTMENT_MAP :: "(string \<times> string) list" where
  "W_DEPARTMENT_MAP =
     [(''1'', ''Reception''), (''2'', ''OPD1''), (''3'', ''OPD2''), (''4'', ''Consultant''),
      (''5'', ''OT''), (''6'', ''Insurance''), (''7'', ''Optical''), (''8'', ''House Keeping''),
      (''9'', ''Driver''), (''10'', ''Accounts'')]"

text \<open>\<open>AUTO_CHECKOUT_TIME = '21:00'\<close>, and the time of day it parses to.\<close>

definition AUTO_CHECKOUT_TIME :: string where
  "AUTO_CHECKOUT_TIME = ''21:00''"

definition auto_checkout_dt :: tod where
  "auto_checkout_dt = 75600"

definition get_biometrics_master_data :: "w_env \<Rightarrow> string \<Rightarrow> biometrics option" where
  "get_biometrics_master_data e employee_id =
     find (\<lambda>b. b_employeeid b = employee_id) (w_biometrics_master e)"

definition check_existing_checkin :: "w_session list \<Rightarrow> string \<Rightarrow> string \<Rightarrow> w_session option" where
  "check_existing_checkin rows u checkin_date =
     find (\<lambda>r. userid r = u \<and> checkindate r = Some checkin_date) rows"

definition update_migration_status :: "string \<Rightarrow> string \<Rightarrow> string \<Rightarrow> string \<Rightarrow> w_log list \<Rightarrow> w_log list" where
  "update_migration_status employee_id pdate ptype status logs =
     map (\<lambda>l. if w_user_id l = employee_id \<and> w_punch_date l = pdate \<and> w_punch_type l = ptype
               then l\<lparr>w_migration_status := status\<rparr> else l) logs"

definition insert_checkin :: "biometrics \<Rightarrow> shift_data \<Rightarrow> w_log \<Rightarrow> w_state \<Rightarrow> w_state \<times> bool" where
  "insert_checkin bio_data shift log_data st =
     (case w_calculate_punch_status (w_punch_time log_data) (starttime shift) ''checkin'' None (PBool False) of
        None \<Rightarrow> (st, False)
      | Some sr \<Rightarrow>
          (st\<lparr>w_rows := w_rows st @
                 [\<lparr>userpunchactionid = w_next_id st,
                   clientid = b_clientid bio_data,
                   employeeid = b_employeeid bio_data,
                   fullname = b_fullname bio_data,
                   shiftendtime = endtime shift,
                   shiftstarttime = starttime shift,
                   statusid = 1,
                   reportingmanager = b_reportingmanager bio_data,
                   checkindate = Some (w_punch_date log_data),
                   checkindatetime = Some (w_punch_date log_data @ ''T'' @ w_punch_time log_data @ ''.000Z''),
                   checkintime = Some (w_punch_time log_data),
                   loginlatitude = 107904833,
                   loginlocationid = 2,
                   loginlocationname = ''Kenrail Towers'',
                   loginlongitude = 787046725,
                   overtimeid = (if lower (b_overtimestatus bio_data) = ''yes'' then 1 else 0),
                   punchinid = 1,
                   punchinreason = snd sr,
                   punchinstatus = fst sr,
                   skipdistancechecking = False,
                   userid = b_userid bio_data,
                   departmentid = b_basedepartmentid bio_data,
                   departmentname =
                     (case map_of W_DEPARTMENT_MAP (b_basedepartmentid bio_data) of
                        Some n \<Rightarrow> n | None \<Rightarrow> []),
                   checkoutdate = None, checkouttime = None, checkoutdatetime = None,
                   punchoutid = Some 0, logoutlatitude = None, logoutlocationid = None,
                   logoutlocationname = None, logoutlongitude = None,
                   punchoutreason = None, punchoutstatus = None\<rparr>],
              w_next_id := Suc (w_next_id st)\<rparr>, True))"

text \<open>The ten columns both \<open>UPDATE\<close> statements of the file set.\<close>

definition w_set_checkout ::
  "string \<Rightarrow> string \<Rightarrow> string \<Rightarrow> string \<Rightarrow> string \<Rightarrow> w_session \<Rightarrow> w_session" where
  "w_set_checkout t d dt reason status r =
     r\<lparr>checkouttime := Some t, checkoutdate := Some d, checkoutdatetime := Some dt,
       punchoutid := Some 2, logoutlatitude := Some 107904833, logoutlocationid := Some 2,
       logoutlocationname := Some ''Kenrail Towers'', logoutlongitude := Some 787046725,
       punchoutreason := Some reason, punchoutstatus := Some status\<rparr>"

definition update_checkout ::
  "string \<Rightarrow> string \<Rightarrow> w_log \<Rightarrow> shift_data \<Rightarrow> bool \<Rightarrow> w_state \<Rightarrow> w_state \<times> bool" where
  "update_checkout u checkin_date log_data shift overtime_allowed st =
     (case w_calculate_punch_status (w_punch_time log_data) (starttime shift) ''checkout''
             (Some (endtime shift)) (PBool overtime_allowed) of
        None \<Rightarrow> (st, False)
      | Some sr \<Rightarrow>
          (st\<lparr>w_rows :=
                map (\<lambda>r. if userid r = u \<and> checkindate r = Some checkin_date
                          then w_set_checkout (w_punch_time log_data) (w_punch_date log_data)
                                 (w_punch_date log_data @ ''T'' @ w_punch_time log_data @ ''.000Z'')
                                 (snd sr) (fst sr) r
                          else r) (w_rows st)\<rparr>, True))"

text \<open>\<open>auto_checkout\<close>: true when the \<open>UPDATE\<close> found an open row.\<close>

definition auto_checkout :: "string \<Rightarrow> string \<Rightarrow> w_state \<Rightarrow> w_state \<times> bool" where
  "auto_checkout u checkin_date st =
     (st\<lparr>w_rows :=
           map (\<lambda>r. if userid r = u \<and> checkindate r = Some checkin_date \<and> checkouttime r = None
                     then w_set_checkout AUTO_CHECKOUT_TIME checkin_date
                            (checkin_date @ ''T'' @ AUTO_CHECKOUT_TIME @ '':00.000Z'')
                            ''auto checkout'' ''auto checkout'' r
                     else r) (w_rows st)\<rparr>,
      \<exists>r \<in> set (w_rows st). userid r = u \<and> checkindate r = Some checkin_date \<and> checkouttime r = None)"

text \<open>The truth value of \<open>existing_record.get('checkouttime')\<close>.\<close>

definition has_checkouttime :: "w_session \<Rightarrow> bool" where
  "has_checkouttime r = (case checkouttime r of None \<Rightarrow> False | Some t \<Rightarrow> t \<noteq> [])"

definition process_user_attendance :: "w_env \<Rightarrow> w_log list \<Rightarrow> string \<Rightarrow> w_state \<Rightarrow> w_state" where
  "process_user_attendance e user_logs current_date st =
     (case user_logs of
        [] \<Rightarrow> st
      | first_log # _ \<Rightarrow>
          (let employee_id = w_user_id first_log in
           case get_biometrics_master_data e employee_id of
             None \<Rightarrow> st
           | Some bio_data \<Rightarrow>
               if b_statusid bio_data \<noteq> ''1'' then st
               else
                 (case get_shift_allocation e (b_userid bio_data) current_date of
                    None \<Rightarrow> st
                  | Some shift_id \<Rightarrow>
                      (case get_shift_management e shift_id of
                         None \<Rightarrow> st
                       | Some shift \<Rightarrow>
                           (let u = b_userid bio_data;
                                checkin_logs = filter (\<lambda>l. lower (w_punch_type l) = ''checkin'') user_logs;
                                checkout_logs = filter (\<lambda>l. lower (w_punch_type l) = ''checkout'') user_logs;
                                st1 =
                                  (case checkin_logs of
                                     [] \<Rightarrow> st
                                   | first_checkin # extra_checkins \<Rightarrow>
                                       (case check_existing_checkin (w_rows st) u current_date of
                                          None \<Rightarrow>
                                            (let res = insert_checkin bio_data shift first_checkin st in
                                             if snd res
                                             then (fst res)\<lparr>w_logs :=
                                                    fold (\<lambda>extra_checkin. update_migration_status employee_id
                                                                            current_date ''checkin'' ''Duplicate'')
                                                      extra_checkins
                                                      (update_migration_status employee_id current_date
                                                         ''checkin'' ''Yes'' (w_logs (fst res)))\<rparr>
                                             else fst res)
                                        | Some existing_checkin \<Rightarrow>
                                            st\<lparr>w_logs :=
                                                 fold (\<lambda>checkin. update_migration_status employee_id current_date
                                                                    ''checkin'' ''Duplicate'')
                                                   checkin_logs (w_logs st)\<rparr>))
                            in case (check_existing_checkin (w_rows st1) u current_date, checkout_logs) of
                                 (Some existing_record, first_checkout # extra_checkouts) \<Rightarrow>
                                   if \<not> has_checkouttime existing_record
                                   then (let res = update_checkout u current_date first_checkout shift
                                                     (overtimeid existing_record \<noteq> 0) st1 in
                                         if snd res
                                         then (fst res)\<lparr>w_logs :=
                                                fold (\<lambda>extra_checkout. update_migration_status employee_id
                                                                         current_date ''checkout'' ''Duplicate'')
                                                  extra_checkouts
                                                  (update_migration_status employee_id current_date
                                                     ''checkout'' ''Yes'' (w_logs (fst res)))\<rparr>
                                         else fst res)
                                   else st1\<lparr>w_logs :=
                                          fold (\<lambda>checkout. update_migration_status employee_id current_date
                                                              ''checkout'' ''Duplicate'')
                                            (first_checkout # extra_checkouts) (w_logs st1)\<rparr>
                               | _ \<Rightarrow> st1)))))"

text \<open>\<open>process_auto_checkouts\<close>: nothing before 21:00; after it, one \<open>auto_checkout\<close>
  for each open session of the current date selected beforehand.\<close>

definition process_auto_checkouts :: "w_env \<Rightarrow> string \<Rightarrow> w_state \<Rightarrow> w_state" where
  "process_auto_checkouts e current_date st =
     (if w_current_time e < auto_checkout_dt then st
      else fold (\<lambda>record st'. case checkindate record of
                                 None \<Rightarrow> st'
                               | Some d \<Rightarrow> fst (auto_checkout (userid record) d st'))
             (filter (\<lambda>r. checkindate r = Some current_date \<and> checkouttime r = None) (w_rows st))
             st)"

section \<open>Auxiliary notions and example data\<close>

text \<open>The value of \<open>SELECT MIN(userpunchactionid) ... WHERE cond\<close> over a table with
  at least one such row.\<close>

definition group_min :: "(('d, 't, 'dt) session \<Rightarrow> bool) \<Rightarrow> ('d, 't, 'dt) session list \<Rightarrow> nat" where
  "group_min cond rows = Min (userpunchactionid ` {r \<in> set rows. cond r})"

text \<open>The two groupings of the deduplication pass: open rows by employee and checkin
  date, closed rows by employee and checkout date.\<close>

definition open_key :: "rg_session \<Rightarrow> string \<times> date option" where
  "open_key r = (employeeid r, checkindate r)"

definition open_grp :: "rg_session \<Rightarrow> bool" where
  "open_grp r = (checkindate r \<noteq> None \<and> checkouttime r = None)"

definition closed_key :: "rg_session \<Rightarrow> string \<times> date option" where
  "closed_key r = (employeeid r, checkoutdate r)"

definition closed_grp :: "rg_session \<Rightarrow> bool" where
  "closed_grp r = (checkoutdate r \<noteq> None \<and> checkouttime r \<noteq> None)"

text \<open>A session row for the examples, as \<open>process_checkin\<close> inserts it for the
  example employee with an \<open>ontime\<close> checkin: key, employee, checkin date and time, and
  for a closed row the checkout date, time and status as \<open>process_checkout\<close> writes
  them, with an empty reason.\<close>

definition ex_session ::
  "nat \<Rightarrow> string \<Rightarrow> date option \<Rightarrow> tod option \<Rightarrow> (date \<times> tod \<times> string) option \<Rightarrow> rg_session" where
  "ex_session i u ci_date ci_time co =
     \<lparr>userpunchactionid = i, clientid = ''c'', employeeid = u, fullname = ''n'',
      shiftendtime = ''17:00:00'', shiftstarttime = ''09:00:00'', statusid = 1,
      reportingmanager = ''m'', checkindate = ci_date,
      checkindatetime = map_option (\<lambda>d. (d, 0)) ci_date, checkintime = ci_time,
      loginlatitude = - 12605476, loginlocationid = 2,
      loginlocationname = ''Red Ginger Eatery Ltd'', loginlongitude = 368167960,
      overtimeid = 0, punchinid = 1, punchinreason = '''', punchinstatus = ''ontime'',
      skipdistancechecking = False, userid = ''x'', departmentid = ''3'',
      departmentname = ''Kitchen'',
      checkoutdate = map_option fst co,
      checkouttime = map_option (\<lambda>c. fst (snd c)) co,
      checkoutdatetime = map_option (\<lambda>c. (fst c, fst (snd c))) co,
      punchoutid = map_option (\<lambda>c. 2) co,
      logoutlatitude = map_option (\<lambda>c. - 12605476) co,
      logoutlocationid = map_option (\<lambda>c. 2) co,
      logoutlocationname = map_option (\<lambda>c. ''Red Ginger Eatery Ltd'') co,
      logoutlongitude = map_option (\<lambda>c. 368167960) co,
      punchoutreason = map_option (\<lambda>c. []) co,
      punchoutstatus = map_option (\<lambda>c. snd (snd c)) co\<rparr>"

text \<open>Master data, environment, events and states for the examples: one employee
  \<open>u\<close> with shift 09:00 to 17:00 and no overtime.\<close>

definition ex_bio :: biometrics where
  "ex_bio =
     \<lparr>b_shiftstarttime = ''09:00:00'', b_shiftendtime = ''17:00:00'', b_clientid = ''c'',
      b_employeeid = ''u'', b_fullname = ''n'', b_reportingmanager = ''m'', b_userid = ''x'',
      b_basedepartmentid = ''3'', b_overtimestatus = ''no'', b_statusid = ''1''\<rparr>"

definition ex_env :: "datetime \<Rightarrow> env" where
  "ex_env n = \<lparr>biometrics_master = [ex_bio], now = n\<rparr>"

definition ex_event :: "date \<Rightarrow> tod \<Rightarrow> string \<Rightarrow> string \<Rightarrow> punch_event" where
  "ex_event d t k m =
     \<lparr>user_id = ''u'', punch_date = d, punch_time = t, punch_type = k, device_id = ''dev'',
      migration_status = m\<rparr>"

definition ex_state :: "punch_event list \<Rightarrow> rg_session list \<Rightarrow> rg_state" where
  "ex_state logs rows =
     \<lparr>src_logs = logs, tgt_rows = rows, next_id = Suc (length rows), processed_records = {},
      last_sync_time = None\<rparr>"

text \<open>The data of the two-cycle example: a checkin on day 739464 (2025-08-01) with no
  checkout that day, a checkin and a checkout on the next day, read on day 739467 at
  noon. The two sessions the reconciler creates, and the keys it records.\<close>

definition ex_cycle_env :: env where
  "ex_cycle_env = ex_env (739467, 43200)"

definition ex_cycle_logs :: "string \<Rightarrow> string \<Rightarrow> string \<Rightarrow> punch_event list" where
  "ex_cycle_logs m1 m2 m3 =
     [ex_event 739464 32400 ''checkin'' m1, ex_event 739465 32400 ''checkin'' m2,
      ex_event 739465 64800 ''checkout'' m3]"

definition ex_row1 :: rg_session where
  "ex_row1 = ex_session 1 ''u'' (Some 739464) (Some 32400) (Some (739465, 64800, ''manual''))"

definition ex_row2 :: "(date \<times> tod \<times> string) option \<Rightarrow> rg_session" where
  "ex_row2 co = ex_session 2 ''u'' (Some 739465) (Some 32400) co"

definition ex_keys :: "record_key set" where
  "ex_keys = {(''u'', 739465, 32400, ''checkin''), (''u'', 739465, 64800, ''checkout''),
              (''u'', 739464, 32400, ''checkin'')}"

text \<open>Example data for westlands.py: the example employee on shift 1 (09:00 to 17:00),
  an event of that employee, and an open session as \<open>insert_checkin\<close> writes it.\<close>

definition ex_w_env :: "tod \<Rightarrow> w_env" where
  "ex_w_env t =
     \<lparr>w_biometrics_master = [ex_bio],
      get_shift_allocation = (\<lambda>u d. if u = ''x'' then Some 1 else None),
      get_shift_management =
        (\<lambda>i. if i = 1 then Some \<lparr>starttime = ''09:00:00'', endtime = ''17:00:00''\<rparr> else None),
      w_current_time = t\<rparr>"

definition ex_w_log :: "string \<Rightarrow> string \<Rightarrow> string \<Rightarrow> string \<Rightarrow> w_log" where
  "ex_w_log d t k m =
     \<lparr>w_user_id = ''u'', w_punch_date = d, w_punch_time = t, w_punch_type = k,
      w_migration_status = m\<rparr>"

definition ex_w_session :: "nat \<Rightarrow> string \<Rightarrow> string \<Rightarrow> w_session" where
  "ex_w_session i d t =
     \<lparr>userpunchactionid = i, clientid = ''c'', employeeid = ''u'', fullname = ''n'',
      shiftendtime = ''17:00:00'', shiftstarttime = ''09:00:00'', statusid = 1,
      reportingmanager = ''m'', checkindate = Some d,
      checkindatetime = Some (d @ ''T'' @ t @ ''.000Z''), checkintime = Some t,
      loginlatitude = 107904833, loginlocationid = 2,
      loginlocationname = ''Kenrail Towers'', loginlongitude = 787046725,
      overtimeid = 0, punchinid = 1, punchinreason = ''ontime'', punchinstatus = ''ontime'',
      skipdistancechecking = False, userid = ''x'', departmentid = ''3'',
      departmentname = ''OPD2'',
      checkoutdate = None, checkouttime = None, checkoutdatetime = None,
      punchoutid = Some 0, logoutlatitude = None, logoutlocationid = None,
      logoutlocationname = None, logoutlongitude = None,
      punchoutreason = None, punchoutstatus = None\<rparr>"



section \<open>Properties\<close>

subsection \<open>Evaluation of the string primitives\<close>

lemmas str_eval = is_space_def strip_def is_int_space_def int_strip_def is_py_digit_def is_digit_def digit_val_def lower_char_def lower_def
  split_colon_def py_int_def py_time_def parse_time_parts_def strptime_field_def strptime_hms_def
  strptime_hm_def parse_time_def isdigit_def

lemma lower_checkin: "lower ''checkin'' = ''checkin''"
  by (simp add: lower_def lower_char_def)

lemma lower_checkout: "lower ''checkout'' = ''checkout''"
  by (simp add: lower_def lower_char_def)

subsection \<open>The punch classifiers\<close>

text \<open>
  C3. In redginger.py the ten minutes of grace are added to the shift start and the
  sum is taken as a time of day, so the limit wraps at midnight: for a shift that
  starts at 23:55:00 the limit is 00:05:00, and a checkin at 23:58:00, three minutes
  after the shift start and inside the grace window, is classified \<open>late\<close> with reason
  \<open>late\<close>, where the claim and the docstring of the function give \<open>ontime\<close>.
\<close>

theorem checkin_grace_wraps_at_midnight:
  "parse_time_string (PStr ''23:55:00'') = 86100 \<and>
   parse_time_string (PStr ''23:58:00'') = 86280 \<and>
   grace_time (parse_time_string (PStr ''23:55:00'')) = 300 \<and>
   calculate_punch_status (PStr ''23:58:00'') (PStr ''23:55:00'') True = (''late'', ''late'')"
  by (simp add: calculate_punch_status_def grace_time_def str_eval)

text \<open>Where the sum stays below 24:00:00, which is every shift start up to 23:49:59,
  the limit of redginger.py is the shift start plus ten minutes; westlands.py has no
  grace, and its limit is the shift start.\<close>

lemma checkin_status_cases:
  "(parse_time_string punch \<le> grace_time (parse_time_string shift) \<longrightarrow>
      calculate_punch_status punch shift True = (''ontime'', '''')) \<and>
   (grace_time (parse_time_string shift) < parse_time_string punch \<longrightarrow>
      calculate_punch_status punch shift True = (''late'', ''late'')) \<and>
   (parse_time_string shift + 600 < 86400 \<longrightarrow>
      grace_time (parse_time_string shift) = parse_time_string shift + 600) \<and>
   (parse_time p = Some pt \<and> parse_time s = Some sh \<longrightarrow>
      (pt \<le> sh \<longrightarrow> w_calculate_punch_status p s ''checkin'' e ov = Some (''ontime'', ''ontime'')) \<and>
      (sh < pt \<longrightarrow> w_calculate_punch_status p s ''checkin'' e ov = Some (''late'', ''late'')))"
  by (auto simp: calculate_punch_status_def grace_time_def Let_def w_calculate_punch_status_def
        w_punch_status_body_def lower_checkin)

text \<open>
  C9. The punch classifiers are total. In redginger.py every failure of the parse is
  caught inside \<open>parse_time_string\<close>, so \<open>calculate_punch_status\<close> returns one of its
  four pairs for any two strings, and a string that does not parse is read as midnight
  (a checkin is then \<open>ontime\<close>). In westlands.py a punch kind that is \<open>checkin\<close> or
  \<open>checkout\<close> (in any letter case) always gives a pair, never \<open>None\<close>, with or without
  a shift end; a punch time that does not parse gives \<open>late\<close>/\<open>late\<close> for a checkin and
  \<open>manual\<close>/\<open>manual\<close> for a checkout.
\<close>

theorem punch_classifier_total:
  "calculate_punch_status (PStr punch) (PStr shift) is_checkin \<in>
      {(''ontime'', ''''), (''late'', ''late''), (''auto'', ''''), (''earlycheckout'', ''earlycheckout'')} \<and>
   (CHR '':'' \<notin> set punch \<or> parse_time_parts punch = None \<longrightarrow>
      parse_time_string (PStr punch) = 0 \<and>
      calculate_punch_status (PStr punch) (PStr shift) True = (''ontime'', '''')) \<and>
   (lower kind = ''checkin'' \<or> lower kind = ''checkout'' \<longrightarrow>
      (\<exists>status reason. w_calculate_punch_status p s kind e ov = Some (status, reason))) \<and>
   (parse_time p = None \<longrightarrow>
      w_calculate_punch_status p s ''checkin'' e ov = Some (''late'', ''late'') \<and>
      w_calculate_punch_status p s ''checkout'' e ov = Some (''manual'', ''manual''))"
proof -
  have a: "calculate_punch_status (PStr punch) (PStr shift) is_checkin \<in>
      {(''ontime'', ''''), (''late'', ''late''), (''auto'', ''''), (''earlycheckout'', ''earlycheckout'')}"
    by (simp add: calculate_punch_status_def Let_def)
  have b: "CHR '':'' \<notin> set punch \<or> parse_time_parts punch = None \<longrightarrow>
      parse_time_string (PStr punch) = 0 \<and>
      calculate_punch_status (PStr punch) (PStr shift) True = (''ontime'', '''')"
    by (auto simp: calculate_punch_status_def Let_def split: option.splits)
  have c: "lower kind = ''checkin'' \<or> lower kind = ''checkout'' \<longrightarrow>
      (\<exists>status reason. w_calculate_punch_status p s kind e ov = Some (status, reason))"
    by (auto simp: w_calculate_punch_status_def w_punch_status_body_def split: option.splits)
  have d: "parse_time p = None \<longrightarrow>
      w_calculate_punch_status p s ''checkin'' e ov = Some (''late'', ''late'') \<and>
      w_calculate_punch_status p s ''checkout'' e ov = Some (''manual'', ''manual'')"
    by (simp add: w_calculate_punch_status_def w_punch_status_body_def lower_checkin lower_checkout)
  from a b c d show ?thesis by blast
qed

theorem punch_classifier_total_witness:
  "parse_time_string (PStr ''9h30'') = 0 \<and>
   calculate_punch_status (PStr ''9h30'') (PStr ''09:00:00'') True = (''ontime'', '''') \<and>
   (\<exists>status reason. w_calculate_punch_status ''9h30'' ''09:00:00'' ''checkout'' (Some ''17:00:00'') PNone
      = Some (status, reason)) \<and>
   w_calculate_punch_status ''9h30'' ''09:00:00'' ''checkin'' (Some ''17:00:00'') PNone
      = Some (''late'', ''late'') \<and>
   w_calculate_punch_status ''9h30'' ''09:00:00'' ''checkout'' (Some ''17:00:00'') PNone
      = Some (''manual'', ''manual'')"
proof -
  have h1: "CHR '':'' \<notin> set ''9h30''" by simp
  have h2: "parse_time ''9h30'' = None" by (simp add: str_eval)
  note t = punch_classifier_total [of "''9h30''" "''09:00:00''" True "''checkout''" "''9h30''"
      "''09:00:00''" "Some ''17:00:00''" PNone]
  show ?thesis using t h1 h2 lower_checkout by simp
qed

text \<open>
  The two parsers on whitespace outside ASCII. The no-break space 0xA0 is skipped by
  \<open>int()\<close> and by \<open>str.strip()\<close>, so both classifiers read the time behind it; the
  unit separator 0x1F is removed by \<open>str.strip()\<close> only, so redginger.py falls back
  to midnight. An overtime flag \<open>isdigit\<close> accepts and \<open>int()\<close> does not, such as the
  superscript two 0xB2, raises before the times are compared.
\<close>

lemma classifier_latin1_examples:
  "calculate_punch_status (PStr (CHR 0xA0 # ''09:30:00'')) (PStr ''09:00:00'') True = (''late'', ''late'') \<and>
   w_calculate_punch_status (CHR 0xA0 # ''09:30:00'') ''09:00:00'' ''checkin'' None PNone
     = Some (''late'', ''late'') \<and>
   calculate_punch_status (PStr (CHR 0x1F # ''09:30:00'')) (PStr ''09:00:00'') True = (''ontime'', '''') \<and>
   w_calculate_punch_status (CHR 0x1F # ''09:30:00'') ''09:00:00'' ''checkin'' None PNone
     = Some (''late'', ''late'') \<and>
   w_calculate_punch_status ''16:00:00'' ''09:00:00'' ''checkout'' (Some ''17:00:00'') (PStr [CHR 0xB2])
     = Some (''manual'', ''manual'')"
  by (simp add: calculate_punch_status_def grace_time_def w_calculate_punch_status_def
        w_punch_status_body_def str_eval Let_def)

subsection \<open>The anomaly scanner\<close>

lemma clear_checkout_id [simp]: "userpunchactionid (clear_checkout r) = userpunchactionid r"
  by (simp add: clear_checkout_def)

lemma clear_checkout_idem [simp]: "clear_checkout (clear_checkout r) = clear_checkout r"
  by (simp add: clear_checkout_def)

lemma fold_clear_checkout_by_id:
  "fold (\<lambda>a. clear_checkout_by_id (f a)) as rows =
     map (\<lambda>r. if userpunchactionid r \<in> f ` set as then clear_checkout r else r) rows"
proof (induction as arbitrary: rows)
  case Nil
  then show ?case by simp
next
  case (Cons a as)
  have "fold (\<lambda>a. clear_checkout_by_id (f a)) (a # as) rows =
          map (\<lambda>r. if userpunchactionid r \<in> f ` set as then clear_checkout r else r)
            (clear_checkout_by_id (f a) rows)"
    by (simp add: Cons.IH)
  also have "\<dots> = map (\<lambda>r. if userpunchactionid r \<in> f ` set (a # as) then clear_checkout r else r) rows"
    unfolding clear_checkout_by_id_def map_map by (rule map_cong) auto
  finally show ?case .
qed

lemma id_in_filter_image:
  assumes "distinct (map userpunchactionid rows)" "r \<in> set rows"
  shows "userpunchactionid r \<in> userpunchactionid ` set (filter P rows) \<longleftrightarrow> P r"
proof
  assume "userpunchactionid r \<in> userpunchactionid ` set (filter P rows)"
  then obtain r' where r': "r' \<in> set rows" "P r'" "userpunchactionid r' = userpunchactionid r"
    by auto
  from assms r' have "r' = r"
    by (metis distinct_map inj_onD)
  with r' show "P r" by simp
next
  assume "P r"
  with assms show "userpunchactionid r \<in> userpunchactionid ` set (filter P rows)" by auto
qed

lemma clear_selected:
  assumes "distinct (map userpunchactionid rows)"
  shows "fold (\<lambda>a. clear_checkout_by_id (userpunchactionid a)) (filter P rows) rows =
           map (\<lambda>r. if P r then clear_checkout r else r) rows"
  unfolding fold_clear_checkout_by_id
proof (rule map_cong)
  fix r assume "r \<in> set rows"
  from id_in_filter_image [OF assms this, of P]
  show "(if userpunchactionid r \<in> userpunchactionid ` set (filter P rows) then clear_checkout r else r) =
        (if P r then clear_checkout r else r)"
    by simp
qed simp

lemma early_implies_time: "early_checkout_anomaly r \<Longrightarrow> time_anomaly r"
  by (auto simp: early_checkout_anomaly_def time_anomaly_def split: option.splits)

lemma early_clear [simp]: "\<not> early_checkout_anomaly (clear_checkout r)"
  by (simp add: early_checkout_anomaly_def clear_checkout_def split: option.splits)

text \<open>
  C8, as amended. The anomaly scanner touches a row only when it is a same-day session
  with a checkin and a checkout time, its checkin date is on or after the minimum
  eligible date 2025-08-01, and the checkout time is earlier than the checkin time (or
  the checkin is at or after 12:00 and the checkout before 06:00, which is a special
  case of the former). Of such a row it sets exactly the ten checkout columns to NULL;
  every other column, every other row, and the number and order of the rows are
  unchanged. The key column is assumed to be a key.
\<close>

theorem anomaly_scanner_frame:
  assumes "distinct (map userpunchactionid rows)"
  shows "validate_and_fix_time_anomalies rows =
           map (\<lambda>r. if time_anomaly r \<or> early_checkout_anomaly r
                     then r\<lparr>checkoutdate := None, checkouttime := None, checkoutdatetime := None,
                            punchoutid := None, logoutlatitude := None, logoutlocationid := None,
                            logoutlocationname := None, logoutlongitude := None,
                            punchoutreason := None, punchoutstatus := None\<rparr>
                     else r) rows \<and>
         (time_anomaly r \<longleftrightarrow>
           (\<exists>ci co d. checkintime r = Some ci \<and> checkouttime r = Some co \<and> checkindate r = Some d \<and>
                      checkoutdate r = Some d \<and> co < ci \<and> d \<ge> min_date)) \<and>
         (early_checkout_anomaly r \<longleftrightarrow>
           (\<exists>ci co d. checkintime r = Some ci \<and> checkouttime r = Some co \<and> checkindate r = Some d \<and>
                      checkoutdate r = Some d \<and> co < 6 * 3600 \<and> ci \<ge> 12 * 3600 \<and> d \<ge> min_date))"
proof -
  let ?rows1 = "map (\<lambda>r. if time_anomaly r then clear_checkout r else r) rows"
  have "filter early_checkout_anomaly ?rows1 = []"
    by (auto simp: filter_empty_conv dest: early_implies_time)
  then have "validate_and_fix_time_anomalies rows = ?rows1"
    by (simp add: validate_and_fix_time_anomalies_def Let_def clear_selected [OF assms])
  also have "\<dots> = map (\<lambda>r. if time_anomaly r \<or> early_checkout_anomaly r then clear_checkout r else r) rows"
    by (rule map_cong) (auto dest: early_implies_time)
  finally have a: "validate_and_fix_time_anomalies rows =
           map (\<lambda>r. if time_anomaly r \<or> early_checkout_anomaly r
                     then r\<lparr>checkoutdate := None, checkouttime := None, checkoutdatetime := None,
                            punchoutid := None, logoutlatitude := None, logoutlocationid := None,
                            logoutlocationname := None, logoutlongitude := None,
                            punchoutreason := None, punchoutstatus := None\<rparr>
                     else r) rows"
    by (simp add: clear_checkout_def)
  have b: "time_anomaly r \<longleftrightarrow>
           (\<exists>ci co d. checkintime r = Some ci \<and> checkouttime r = Some co \<and> checkindate r = Some d \<and>
                      checkoutdate r = Some d \<and> co < ci \<and> d \<ge> min_date)"
    by (auto simp: time_anomaly_def split: option.splits)
  have c: "early_checkout_anomaly r \<longleftrightarrow>
           (\<exists>ci co d. checkintime r = Some ci \<and> checkouttime r = Some co \<and> checkindate r = Some d \<and>
                      checkoutdate r = Some d \<and> co < 6 * 3600 \<and> ci \<ge> 12 * 3600 \<and> d \<ge> min_date)"
    by (auto simp: early_checkout_anomaly_def split: option.splits)
  from a b c show ?thesis by (intro conjI)
qed

theorem anomaly_scanner_frame_witness:
  "distinct (map userpunchactionid
     [ex_session 1 ''u'' (Some 739464) (Some 32400) (Some (739464, 28800, ''manual'')),
      ex_session 2 ''u'' (Some 739465) (Some 32400) (Some (739465, 64800, ''manual''))]) \<and>
   validate_and_fix_time_anomalies
     [ex_session 1 ''u'' (Some 739464) (Some 32400) (Some (739464, 28800, ''manual'')),
      ex_session 2 ''u'' (Some 739465) (Some 32400) (Some (739465, 64800, ''manual''))] =
     [ex_session 1 ''u'' (Some 739464) (Some 32400) None,
      ex_session 2 ''u'' (Some 739465) (Some 32400) (Some (739465, 64800, ''manual''))]"
proof -
  have d: "distinct (map userpunchactionid
     [ex_session 1 ''u'' (Some 739464) (Some 32400) (Some (739464, 28800, ''manual'')),
      ex_session 2 ''u'' (Some 739465) (Some 32400) (Some (739465, 64800, ''manual''))])"
    by (simp add: ex_session_def)
  from anomaly_scanner_frame [OF d] d show ?thesis
    by (simp add: ex_session_def time_anomaly_def early_checkout_anomaly_def min_date_def)
qed

text \<open>
  C8 as stated has no date guard: a same-day session of 2025-07-31 (day 739463) with
  checkin 09:00 and checkout 08:00 keeps its checkout after the scan.
\<close>

theorem anomaly_scanner_min_date_counterexample:
  "map (\<lambda>r. (checkindate r, checkintime r, checkoutdate r, checkouttime r))
     (validate_and_fix_time_anomalies
        [ex_session 1 ''u'' (Some 739463) (Some 32400) (Some (739463, 28800, ''manual''))]) =
   [(Some 739463, Some 32400, Some 739463, Some 28800)]"
  by (simp add: validate_and_fix_time_anomalies_def ex_session_def time_anomaly_def
        early_checkout_anomaly_def min_date_def)

subsection \<open>The deduplication pass\<close>

lemma set_uniq [simp]: "set (uniq xs) = set xs"
proof (induction xs rule: uniq.induct)
  case 1
  then show ?case by simp
next
  case (2 x xs)
  then show ?case by auto
qed

lemma set_having_count_gt1:
  "set (having_count_gt1 ks) = {k \<in> set ks. length (filter (\<lambda>k'. k' = k) ks) > 1}"
  by (auto simp: having_count_gt1_def)


lemma delete_not_min_filter:
  "delete_not_min cond rows =
     filter (\<lambda>r. cond r \<longrightarrow> userpunchactionid r = group_min cond rows) rows"
proof (cases "map userpunchactionid (filter cond rows)")
  case Nil
  then have "\<forall>r \<in> set rows. \<not> cond r"
    by (auto simp: filter_empty_conv)
  then have "filter (\<lambda>r. cond r \<longrightarrow> userpunchactionid r = group_min cond rows) rows = rows"
    by (simp add: filter_id_conv)
  with Nil show ?thesis by (simp add: delete_not_min_def)
next
  case (Cons i ids)
  have "fold min ids i = Min (set (i # ids))"
    by (rule Min.set_eq_fold [symmetric])
  also have "set (i # ids) = userpunchactionid ` {r \<in> set rows. cond r}"
    unfolding Cons [symmetric] by auto
  finally have "fold min ids i = group_min cond rows"
    by (simp add: group_min_def)
  with Cons show ?thesis
    by (auto simp: delete_not_min_def intro!: filter_cong)
qed

lemma group_min_after:
  assumes r: "r \<in> set rows" "G r"
    and keep: "key r = k \<longrightarrow> userpunchactionid r = group_min (\<lambda>r'. key r' = k \<and> G r') rows"
  shows "group_min (\<lambda>r'. key r' = key r \<and> G r')
           (filter (\<lambda>r'. key r' = k \<and> G r' \<longrightarrow>
                      userpunchactionid r' = group_min (\<lambda>r'. key r' = k \<and> G r') rows) rows)
         = group_min (\<lambda>r'. key r' = key r \<and> G r') rows"
proof (cases "key r = k")
  case False
  then have "{r' \<in> set (filter (\<lambda>r'. key r' = k \<and> G r' \<longrightarrow>
                      userpunchactionid r' = group_min (\<lambda>r'. key r' = k \<and> G r') rows) rows).
               key r' = key r \<and> G r'} = {r' \<in> set rows. key r' = key r \<and> G r'}"
    by auto
  then show ?thesis by (simp add: group_min_def)
next
  case True
  let ?m = "group_min (\<lambda>r'. key r' = k \<and> G r') rows"
  have "userpunchactionid ` {r' \<in> set (filter (\<lambda>r'. key r' = k \<and> G r' \<longrightarrow>
                      userpunchactionid r' = ?m) rows). key r' = key r \<and> G r'} = {?m}"
    using True r keep by auto
  then show ?thesis using True by (simp add: group_min_def)
qed

lemma fold_delete_not_min:
  "fold (\<lambda>k. delete_not_min (\<lambda>r. key r = k \<and> G r)) ks rows =
     filter (\<lambda>r. key r \<in> set ks \<and> G r \<longrightarrow>
                userpunchactionid r = group_min (\<lambda>r'. key r' = key r \<and> G r') rows) rows"
proof (induction ks arbitrary: rows)
  case Nil
  then show ?case by simp
next
  case (Cons k ks)
  let ?Q = "\<lambda>r. key r = k \<and> G r \<longrightarrow> userpunchactionid r = group_min (\<lambda>r'. key r' = k \<and> G r') rows"
  let ?rows' = "filter ?Q rows"
  have "fold (\<lambda>k. delete_not_min (\<lambda>r. key r = k \<and> G r)) (k # ks) rows =
          filter (\<lambda>r. key r \<in> set ks \<and> G r \<longrightarrow>
                userpunchactionid r = group_min (\<lambda>r'. key r' = key r \<and> G r') ?rows') ?rows'"
    by (simp add: Cons.IH delete_not_min_filter)
  also have "\<dots> = filter (\<lambda>r. key r \<in> set ks \<and> G r \<longrightarrow>
                userpunchactionid r = group_min (\<lambda>r'. key r' = key r \<and> G r') rows) ?rows'"
  proof (rule filter_cong [OF refl])
    fix r assume "r \<in> set ?rows'"
    then have r: "r \<in> set rows" "?Q r" by auto
    show "(key r \<in> set ks \<and> G r \<longrightarrow>
            userpunchactionid r = group_min (\<lambda>r'. key r' = key r \<and> G r') ?rows') =
          (key r \<in> set ks \<and> G r \<longrightarrow>
            userpunchactionid r = group_min (\<lambda>r'. key r' = key r \<and> G r') rows)"
    proof (cases "G r")
      case True
      with r have "group_min (\<lambda>r'. key r' = key r \<and> G r') ?rows' =
                   group_min (\<lambda>r'. key r' = key r \<and> G r') rows"
        by (intro group_min_after) auto
      then show ?thesis by simp
    next
      case False
      then show ?thesis by simp
    qed
  qed
  also have "\<dots> = filter (\<lambda>r. key r \<in> set (k # ks) \<and> G r \<longrightarrow>
                userpunchactionid r = group_min (\<lambda>r'. key r' = key r \<and> G r') rows) rows"
    unfolding filter_filter by (rule filter_cong) auto
  finally show ?case .
qed


lemma singleton_of_short: "length xs \<le> 1 \<Longrightarrow> r \<in> set xs \<Longrightarrow> set xs = {r}"
  by (cases xs) auto

lemma dedup_pass_filter:
  assumes sub: "\<And>r. G r \<Longrightarrow> G' r"
  shows "fold (\<lambda>k. delete_not_min (\<lambda>r. key r = k \<and> G r))
           (having_count_gt1 (map key (filter G' rows))) rows =
         filter (\<lambda>r. G r \<longrightarrow>
                   userpunchactionid r = group_min (\<lambda>r'. key r' = key r \<and> G r') rows) rows"
  unfolding fold_delete_not_min
proof (rule filter_cong [OF refl])
  fix r assume r: "r \<in> set rows"
  let ?ks = "having_count_gt1 (map key (filter G' rows))"
  let ?m = "group_min (\<lambda>r'. key r' = key r \<and> G r') rows"
  have "userpunchactionid r = ?m" if g: "G r" and nk: "key r \<notin> set ?ks"
  proof -
    have in_ks: "key r \<in> set (map key (filter G' rows))"
      using r g sub by auto
    with nk have "length (filter (\<lambda>k'. k' = key r) (map key (filter G' rows))) \<le> 1"
      by (auto simp: set_having_count_gt1)
    then have "length (filter (\<lambda>r'. key r' = key r \<and> G' r') rows) \<le> 1"
      by (simp add: filter_map comp_def conj_commute)
    moreover have "r \<in> set (filter (\<lambda>r'. key r' = key r \<and> G' r') rows)"
      using r g sub by simp
    ultimately have "set (filter (\<lambda>r'. key r' = key r \<and> G' r') rows) = {r}"
      by (rule singleton_of_short)
    then have "{r' \<in> set rows. key r' = key r \<and> G r'} = {r}"
      using r g sub by auto
    then show ?thesis by (simp add: group_min_def)
  qed
  then show "(key r \<in> set ?ks \<and> G r \<longrightarrow> userpunchactionid r = ?m) = (G r \<longrightarrow> userpunchactionid r = ?m)"
    by blast
qed


lemma dedup_filter:
  "validate_and_cleanup_duplicates rows =
     filter (\<lambda>r. (open_grp r \<longrightarrow>
                     userpunchactionid r = group_min (\<lambda>r'. open_key r' = open_key r \<and> open_grp r') rows) \<and>
                  (closed_grp r \<longrightarrow>
                     userpunchactionid r = group_min (\<lambda>r'. closed_key r' = closed_key r \<and> closed_grp r') rows))
       rows"
proof -
  have f1: "(\<lambda>(e, d). delete_not_min
              (\<lambda>r::rg_session. employeeid r = e \<and> d \<noteq> None \<and> checkindate r = d \<and> checkouttime r = None)) =
            (\<lambda>k. delete_not_min (\<lambda>r. open_key r = k \<and> open_grp r))"
    by (auto simp: fun_eq_iff open_key_def open_grp_def intro!: arg_cong2 [where f = delete_not_min])
  have f2: "(\<lambda>(e, d). delete_not_min
              (\<lambda>r::rg_session. employeeid r = e \<and> d \<noteq> None \<and> checkoutdate r = d \<and> checkouttime r \<noteq> None)) =
            (\<lambda>k. delete_not_min (\<lambda>r. closed_key r = k \<and> closed_grp r))"
    by (auto simp: fun_eq_iff closed_key_def closed_grp_def intro!: arg_cong2 [where f = delete_not_min])
  let ?rows1 = "filter (\<lambda>r. open_grp r \<longrightarrow>
                   userpunchactionid r = group_min (\<lambda>r'. open_key r' = open_key r \<and> open_grp r') rows) rows"
  have p1: "fold (\<lambda>k. delete_not_min (\<lambda>r. open_key r = k \<and> open_grp r))
              (having_count_gt1 (map open_key (filter (\<lambda>r. checkouttime r = None) rows))) rows = ?rows1"
    by (rule dedup_pass_filter) (simp add: open_grp_def)
  have p2: "fold (\<lambda>k. delete_not_min (\<lambda>r. closed_key r = k \<and> closed_grp r))
              (having_count_gt1 (map closed_key (filter (\<lambda>r. checkouttime r \<noteq> None) ?rows1))) ?rows1 =
            filter (\<lambda>r. closed_grp r \<longrightarrow>
                   userpunchactionid r = group_min (\<lambda>r'. closed_key r' = closed_key r \<and> closed_grp r') ?rows1) ?rows1"
    by (rule dedup_pass_filter) (simp add: closed_grp_def)
  have same: "group_min (\<lambda>r'. closed_key r' = k \<and> closed_grp r') ?rows1 =
              group_min (\<lambda>r'. closed_key r' = k \<and> closed_grp r') rows" for k
  proof -
    have "{r' \<in> set ?rows1. closed_key r' = k \<and> closed_grp r'} =
          {r' \<in> set rows. closed_key r' = k \<and> closed_grp r'}"
      by (auto simp: closed_grp_def open_grp_def)
    then show ?thesis by (simp add: group_min_def)
  qed
  have "validate_and_cleanup_duplicates rows =
          filter (\<lambda>r. closed_grp r \<longrightarrow>
                   userpunchactionid r = group_min (\<lambda>r'. closed_key r' = closed_key r \<and> closed_grp r') ?rows1) ?rows1"
    unfolding validate_and_cleanup_duplicates_def Let_def f1 f2
    using p1 p2 by (simp add: open_key_def [abs_def] closed_key_def [abs_def])
  then show ?thesis
    unfolding same filter_filter by (auto intro!: filter_cong)
qed


lemma group_min_iff:
  assumes "r \<in> set rows" "cond r"
  shows "userpunchactionid r = group_min cond rows \<longleftrightarrow>
           (\<forall>r' \<in> set rows. cond r' \<longrightarrow> userpunchactionid r \<le> userpunchactionid r')"
proof -
  let ?S = "userpunchactionid ` {r \<in> set rows. cond r}"
  have fin: "finite ?S" by simp
  have mem: "userpunchactionid r \<in> ?S" using assms by auto
  show ?thesis
  proof
    assume "userpunchactionid r = group_min cond rows"
    then have "userpunchactionid r = Min ?S" by (simp add: group_min_def)
    then show "\<forall>r' \<in> set rows. cond r' \<longrightarrow> userpunchactionid r \<le> userpunchactionid r'"
      using fin by (metis (mono_tags, lifting) Min_le image_eqI mem_Collect_eq)
  next
    assume "\<forall>r' \<in> set rows. cond r' \<longrightarrow> userpunchactionid r \<le> userpunchactionid r'"
    then have "Min ?S = userpunchactionid r"
      using fin mem by (intro Min_eqI) auto
    then show "userpunchactionid r = group_min cond rows" by (simp add: group_min_def)
  qed
qed

text \<open>
  C6, as amended. The deduplication pass only deletes rows. Afterwards no two open rows
  share an employee and a (non-NULL) checkin date, and no two closed rows share an
  employee and a (non-NULL) checkout date; a row stays exactly when its key is the
  lowest of its group, open rows being grouped by employee and checkin date and closed
  rows by employee and checkout date. An open and a closed row of the same employee and
  checkin date are in different groups and both stay. The key column is assumed to be a
  key.
\<close>

theorem dedup_pass_groups:
  assumes "distinct (map userpunchactionid rows)"
  shows "(\<forall>r1 \<in> set (validate_and_cleanup_duplicates rows).
          \<forall>r2 \<in> set (validate_and_cleanup_duplicates rows).
            checkouttime r1 = None \<and> checkouttime r2 = None \<and> employeeid r1 = employeeid r2 \<and>
            checkindate r1 = checkindate r2 \<and> checkindate r1 \<noteq> None \<longrightarrow> r1 = r2) \<and>
         (\<forall>r1 \<in> set (validate_and_cleanup_duplicates rows).
          \<forall>r2 \<in> set (validate_and_cleanup_duplicates rows).
            checkouttime r1 \<noteq> None \<and> checkouttime r2 \<noteq> None \<and> employeeid r1 = employeeid r2 \<and>
            checkoutdate r1 = checkoutdate r2 \<and> checkoutdate r1 \<noteq> None \<longrightarrow> r1 = r2) \<and>
         (\<forall>r \<in> set rows.
            r \<in> set (validate_and_cleanup_duplicates rows) \<longleftrightarrow>
              (checkouttime r = None \<and> checkindate r \<noteq> None \<longrightarrow>
                 (\<forall>r' \<in> set rows. checkouttime r' = None \<and> employeeid r' = employeeid r \<and>
                      checkindate r' = checkindate r \<longrightarrow> userpunchactionid r \<le> userpunchactionid r')) \<and>
              (checkouttime r \<noteq> None \<and> checkoutdate r \<noteq> None \<longrightarrow>
                 (\<forall>r' \<in> set rows. checkouttime r' \<noteq> None \<and> employeeid r' = employeeid r \<and>
                      checkoutdate r' = checkoutdate r \<longrightarrow> userpunchactionid r \<le> userpunchactionid r'))) \<and>
         set (validate_and_cleanup_duplicates rows) \<subseteq> set rows"
proof -
  let ?dd = "validate_and_cleanup_duplicates rows"
  have inj: "r1 = r2" if "r1 \<in> set rows" "r2 \<in> set rows" "userpunchactionid r1 = userpunchactionid r2" for r1 r2
    using assms that by (metis distinct_map inj_onD)
  have sub: "set ?dd \<subseteq> set rows"
    by (auto simp: dedup_filter)
  have mem: "r \<in> set ?dd \<longleftrightarrow>
      (open_grp r \<longrightarrow> (\<forall>r' \<in> set rows. open_key r' = open_key r \<and> open_grp r' \<longrightarrow>
                          userpunchactionid r \<le> userpunchactionid r')) \<and>
      (closed_grp r \<longrightarrow> (\<forall>r' \<in> set rows. closed_key r' = closed_key r \<and> closed_grp r' \<longrightarrow>
                          userpunchactionid r \<le> userpunchactionid r'))"
    if r: "r \<in> set rows" for r
  proof -
    have a: "open_grp r \<Longrightarrow>
        (userpunchactionid r = group_min (\<lambda>r'. open_key r' = open_key r \<and> open_grp r') rows) =
        (\<forall>r' \<in> set rows. open_key r' = open_key r \<and> open_grp r' \<longrightarrow>
                          userpunchactionid r \<le> userpunchactionid r')"
      using r by (intro group_min_iff) auto
    have b: "closed_grp r \<Longrightarrow>
        (userpunchactionid r = group_min (\<lambda>r'. closed_key r' = closed_key r \<and> closed_grp r') rows) =
        (\<forall>r' \<in> set rows. closed_key r' = closed_key r \<and> closed_grp r' \<longrightarrow>
                          userpunchactionid r \<le> userpunchactionid r')"
      using r by (intro group_min_iff) auto
    show ?thesis using r a b unfolding dedup_filter by auto
  qed
  have u1: "r1 = r2" if "r1 \<in> set ?dd" "r2 \<in> set ?dd" "open_grp r1" "open_grp r2" "open_key r1 = open_key r2" for r1 r2
  proof -
    from that sub have in_rows: "r1 \<in> set rows" "r2 \<in> set rows" by auto
    from that mem [OF in_rows(1)] mem [OF in_rows(2)] in_rows
    have "userpunchactionid r1 \<le> userpunchactionid r2" "userpunchactionid r2 \<le> userpunchactionid r1"
      by auto
    then show ?thesis using inj in_rows by simp
  qed
  have u2: "r1 = r2" if "r1 \<in> set ?dd" "r2 \<in> set ?dd" "closed_grp r1" "closed_grp r2" "closed_key r1 = closed_key r2" for r1 r2
  proof -
    from that sub have in_rows: "r1 \<in> set rows" "r2 \<in> set rows" by auto
    from that mem [OF in_rows(1)] mem [OF in_rows(2)] in_rows
    have "userpunchactionid r1 \<le> userpunchactionid r2" "userpunchactionid r2 \<le> userpunchactionid r1"
      by auto
    then show ?thesis using inj in_rows by simp
  qed
  have c1: "\<forall>r1 \<in> set ?dd. \<forall>r2 \<in> set ?dd.
            checkouttime r1 = None \<and> checkouttime r2 = None \<and> employeeid r1 = employeeid r2 \<and>
            checkindate r1 = checkindate r2 \<and> checkindate r1 \<noteq> None \<longrightarrow> r1 = r2"
  proof (intro ballI impI)
    fix r1 r2
    assume m: "r1 \<in> set ?dd" "r2 \<in> set ?dd"
      and a: "checkouttime r1 = None \<and> checkouttime r2 = None \<and> employeeid r1 = employeeid r2 \<and>
            checkindate r1 = checkindate r2 \<and> checkindate r1 \<noteq> None"
    from a have g1: "open_grp r1" unfolding open_grp_def by blast
    from a have g2: "open_grp r2" unfolding open_grp_def by metis
    from a have k: "open_key r1 = open_key r2" unfolding open_key_def by simp
    show "r1 = r2" by (rule u1 [OF m g1 g2 k])
  qed
  have c2: "\<forall>r1 \<in> set ?dd. \<forall>r2 \<in> set ?dd.
            checkouttime r1 \<noteq> None \<and> checkouttime r2 \<noteq> None \<and> employeeid r1 = employeeid r2 \<and>
            checkoutdate r1 = checkoutdate r2 \<and> checkoutdate r1 \<noteq> None \<longrightarrow> r1 = r2"
  proof (intro ballI impI)
    fix r1 r2
    assume m: "r1 \<in> set ?dd" "r2 \<in> set ?dd"
      and a: "checkouttime r1 \<noteq> None \<and> checkouttime r2 \<noteq> None \<and> employeeid r1 = employeeid r2 \<and>
            checkoutdate r1 = checkoutdate r2 \<and> checkoutdate r1 \<noteq> None"
    from a have g1: "closed_grp r1" unfolding closed_grp_def by blast
    from a have g2: "closed_grp r2" unfolding closed_grp_def by metis
    from a have k: "closed_key r1 = closed_key r2" unfolding closed_key_def by simp
    show "r1 = r2" by (rule u2 [OF m g1 g2 k])
  qed
  have c3: "\<forall>r \<in> set rows.
            r \<in> set ?dd \<longleftrightarrow>
              (checkouttime r = None \<and> checkindate r \<noteq> None \<longrightarrow>
                 (\<forall>r' \<in> set rows. checkouttime r' = None \<and> employeeid r' = employeeid r \<and>
                      checkindate r' = checkindate r \<longrightarrow> userpunchactionid r \<le> userpunchactionid r')) \<and>
              (checkouttime r \<noteq> None \<and> checkoutdate r \<noteq> None \<longrightarrow>
                 (\<forall>r' \<in> set rows. checkouttime r' \<noteq> None \<and> employeeid r' = employeeid r \<and>
                      checkoutdate r' = checkoutdate r \<longrightarrow> userpunchactionid r \<le> userpunchactionid r'))"
  proof
    fix r assume r: "r \<in> set rows"
    show "r \<in> set ?dd \<longleftrightarrow>
              (checkouttime r = None \<and> checkindate r \<noteq> None \<longrightarrow>
                 (\<forall>r' \<in> set rows. checkouttime r' = None \<and> employeeid r' = employeeid r \<and>
                      checkindate r' = checkindate r \<longrightarrow> userpunchactionid r \<le> userpunchactionid r')) \<and>
              (checkouttime r \<noteq> None \<and> checkoutdate r \<noteq> None \<longrightarrow>
                 (\<forall>r' \<in> set rows. checkouttime r' \<noteq> None \<and> employeeid r' = employeeid r \<and>
                      checkoutdate r' = checkoutdate r \<longrightarrow> userpunchactionid r \<le> userpunchactionid r'))"
      unfolding mem [OF r] open_grp_def open_key_def closed_grp_def closed_key_def
      by (intro arg_cong2 [where f = "(\<and>)"]) auto
  qed
  from c1 c2 c3 sub show ?thesis by (intro conjI)
qed

theorem dedup_pass_groups_witness:
  "distinct (map userpunchactionid
     [ex_session 1 ''u'' (Some 739464) (Some 32400) None,
      ex_session 2 ''u'' (Some 739464) (Some 32460) None,
      ex_session 3 ''v'' (Some 739464) (Some 32400) (Some (739464, 64800, ''manual''))]) \<and>
   ex_session 1 ''u'' (Some 739464) (Some 32400) None \<in>
     set (validate_and_cleanup_duplicates
       [ex_session 1 ''u'' (Some 739464) (Some 32400) None,
        ex_session 2 ''u'' (Some 739464) (Some 32460) None,
        ex_session 3 ''v'' (Some 739464) (Some 32400) (Some (739464, 64800, ''manual''))]) \<and>
   ex_session 2 ''u'' (Some 739464) (Some 32460) None \<notin>
     set (validate_and_cleanup_duplicates
       [ex_session 1 ''u'' (Some 739464) (Some 32400) None,
        ex_session 2 ''u'' (Some 739464) (Some 32460) None,
        ex_session 3 ''v'' (Some 739464) (Some 32400) (Some (739464, 64800, ''manual''))])"
proof -
  have d: "distinct (map userpunchactionid
     [ex_session 1 ''u'' (Some 739464) (Some 32400) None,
      ex_session 2 ''u'' (Some 739464) (Some 32460) None,
      ex_session 3 ''v'' (Some 739464) (Some 32400) (Some (739464, 64800, ''manual''))])"
    by (simp add: ex_session_def)
  from dedup_pass_groups [OF d] d show ?thesis
    by (simp add: ex_session_def)
qed

text \<open>
  C6 as stated fails when an open and a closed row share the employee and the checkin
  date: both rows are still there after the pass.
\<close>

theorem dedup_open_closed_counterexample:
  "map (\<lambda>r. (userpunchactionid r, employeeid r, checkindate r))
     (validate_and_cleanup_duplicates
        [ex_session 1 ''u'' (Some 739464) (Some 32400) None,
         ex_session 2 ''u'' (Some 739464) (Some 32400) (Some (739464, 64800, ''manual''))]) =
   [(1, ''u'', Some 739464), (2, ''u'', Some 739464)]"
  by (simp add: validate_and_cleanup_duplicates_def having_count_gt1_def ex_session_def)

subsection \<open>Applying a checkout\<close>

lemma first_by_mem: "first_by le xs = Some x \<Longrightarrow> x \<in> set xs"
  by (induction xs arbitrary: x) (auto split: option.splits if_splits)

lemma first_by_None [simp]: "first_by le xs = None \<longleftrightarrow> xs = []"
  by (cases xs) (auto split: option.splits)

lemma find_checkin_search_props:
  "find_checkin_search rows u d t ds = Some cr \<Longrightarrow>
     cr \<in> set rows \<and> employeeid cr = u \<and> checkouttime cr = None \<and>
     (\<exists>sd \<in> set ds. checkindate cr = Some sd \<and>
        dt_secs (d, t) > dt_secs (sd, parse_time_string (time_val (checkintime cr))))"
proof (induction ds)
  case Nil
  then show ?case by simp
next
  case (Cons sd ds)
  show ?case
  proof (cases "first_by checkintime_desc
             (filter (\<lambda>r. employeeid r = u \<and> checkindate r = Some sd \<and> checkouttime r = None) rows)")
    case None
    with Cons show ?thesis by auto
  next
    case (Some c)
    from first_by_mem [OF Some] have c: "c \<in> set rows" "employeeid c = u" "checkindate c = Some sd"
      "checkouttime c = None" by auto
    show ?thesis
    proof (cases "dt_secs (combine d (parse_time_string (PTime t)))
             > dt_secs (combine sd (parse_time_string (time_val (checkintime c))))")
      case True
      with Some Cons.prems have "cr = c" by simp
      with c True show ?thesis by (simp add: combine_def)
    next
      case False
      with Some Cons show ?thesis by auto
    qed
  qed
qed

lemma find_checkin_for_checkout_props:
  "find_checkin_for_checkout rows u d t = Some cr \<Longrightarrow>
     cr \<in> set rows \<and> employeeid cr = u \<and> checkouttime cr = None \<and>
     (\<exists>sd. checkindate cr = Some sd \<and> (sd = d \<or> sd = d - 1 \<or> sd = d - 2) \<and>
        dt_secs (d, t) > dt_secs (sd, parse_time_string (time_val (checkintime cr))))"
  unfolding find_checkin_for_checkout_def
  by (drule find_checkin_search_props) auto

text \<open>The outcomes of \<open>process_checkout\<close>: the session table is left as it was, or one
  open session found by \<open>find_checkin_for_checkout\<close> and accepted by
  \<open>validate_checkout_time_logic\<close> gets the checkout.\<close>

lemma process_checkout_rows:
  "tgt_rows (fst (process_checkout e a force st)) = tgt_rows st \<or>
   (\<exists>cr cd b.
      find_checkin_for_checkout (tgt_rows st) (user_id a) (punch_date a) (punch_time a) = Some cr \<and>
      checkindate cr = Some cd \<and>
      get_biometrics_data e (user_id a) = Some b \<and>
      validate_checkout_time_logic cd (time_val (checkintime cr)) (punch_date a) (PTime (punch_time a)) \<and>
      tgt_rows (fst (process_checkout e a force st)) =
        write_checkout a (punch_date a, punch_time a)
          (snd (punchout_status_reason force (punch_date a, punch_time a)
                  (cd, parse_time_string (PStr (b_shiftendtime b))) (overtimeid cr)))
          (fst (punchout_status_reason force (punch_date a, punch_time a)
                  (cd, parse_time_string (PStr (b_shiftendtime b))) (overtimeid cr)))
          (userpunchactionid cr) (tgt_rows st))"
  by (auto simp: process_checkout_def Let_def combine_def split: option.splits)

lemma process_checkout_other:
  "src_logs (fst (process_checkout e a force st)) = src_logs st \<and>
   next_id (fst (process_checkout e a force st)) = next_id st \<and>
   last_sync_time (fst (process_checkout e a force st)) = last_sync_time st"
  by (auto simp: process_checkout_def Let_def split: option.splits)


lemma validate_checkout_time_logic_iff:
  "validate_checkout_time_logic cd (time_val ci) d (PTime t) \<longleftrightarrow>
     d * 86400 + int t > cd * 86400 + (case ci of Some ct \<Rightarrow> int ct | None \<Rightarrow> 0) \<and>
     (cd = d \<longrightarrow> (d * 86400 + int t) - (cd * 86400 + (case ci of Some ct \<Rightarrow> int ct | None \<Rightarrow> 0)) \<ge> 3600)"
  by (auto simp: validate_checkout_time_logic_def Let_def combine_def dt_secs_def time_val_def
        split: option.splits)

lemma same_id_same_row:
  "distinct (map userpunchactionid rows) \<Longrightarrow> r1 \<in> set rows \<Longrightarrow> r2 \<in> set rows \<Longrightarrow>
     userpunchactionid r1 = userpunchactionid r2 \<Longrightarrow> r1 = r2"
  by (metis distinct_map inj_onD)

lemma parse_shift_end: "parse_time_parts ''17:00:00'' = Some 61200"
  by (simp add: parse_time_parts_def split_colon_def py_int_def int_strip_def is_int_space_def
        is_digit_def digit_val_def py_time_def)

lemma parse_shift_start: "parse_time_parts ''09:00:00'' = Some 32400"
  by (simp add: parse_time_parts_def split_colon_def py_int_def int_strip_def is_int_space_def
        is_digit_def digit_val_def py_time_def)

lemmas ex_defs = ex_bio_def ex_env_def ex_event_def ex_state_def ex_session_def

lemmas rg_eval = process_checkout_def create_record_key_def get_biometrics_data_def
  find_checkin_for_checkout_def checkintime_desc_def validate_checkout_time_logic_def
  time_val_def combine_def dt_secs_def punchout_status_reason_def write_checkout_def
  parse_shift_end parse_shift_start

text \<open>
  C4. Whatever checkout \<open>process_checkout\<close> applies, real or forced: a row of the
  session table after the call is a row from before, or it is an open session from
  before whose checkin columns are kept and whose checkout is the candidate, and then
  the checkout timestamp is strictly after the checkin timestamp (a missing checkin
  time counts as midnight) and, on the same calendar date, at least 3600 seconds after
  it. Conversely an open session for which the candidate violates this is still in the
  table, unchanged and open. The key column is assumed to be a key.
\<close>

theorem checkout_time_validated:
  assumes "distinct (map userpunchactionid (tgt_rows st))"
  shows
    "(\<forall>r' \<in> set (tgt_rows (fst (process_checkout e a force st))).
        r' \<in> set (tgt_rows st) \<or>
        (\<exists>r \<in> set (tgt_rows st). \<exists>cd.
           checkouttime r = None \<and> checkindate r = Some cd \<and>
           userpunchactionid r' = userpunchactionid r \<and>
           checkindate r' = checkindate r \<and> checkintime r' = checkintime r \<and>
           checkoutdate r' = Some (punch_date a) \<and> checkouttime r' = Some (punch_time a) \<and>
           punch_date a * 86400 + int (punch_time a)
             > cd * 86400 + (case checkintime r of Some ct \<Rightarrow> int ct | None \<Rightarrow> 0) \<and>
           (cd = punch_date a \<longrightarrow>
              (punch_date a * 86400 + int (punch_time a))
                - (cd * 86400 + (case checkintime r of Some ct \<Rightarrow> int ct | None \<Rightarrow> 0)) \<ge> 3600))) \<and>
     (\<forall>r \<in> set (tgt_rows st).
        checkouttime r = None \<and>
        (\<forall>cd. checkindate r = Some cd \<longrightarrow>
           \<not> (punch_date a * 86400 + int (punch_time a)
                 > cd * 86400 + (case checkintime r of Some ct \<Rightarrow> int ct | None \<Rightarrow> 0) \<and>
               (cd = punch_date a \<longrightarrow>
                  (punch_date a * 86400 + int (punch_time a))
                    - (cd * 86400 + (case checkintime r of Some ct \<Rightarrow> int ct | None \<Rightarrow> 0)) \<ge> 3600)))
        \<longrightarrow> r \<in> set (tgt_rows (fst (process_checkout e a force st))))"
proof -
  let ?rows = "tgt_rows st"
  let ?rows' = "tgt_rows (fst (process_checkout e a force st))"
  let ?ok = "\<lambda>r cd. punch_date a * 86400 + int (punch_time a)
             > cd * 86400 + (case checkintime r of Some ct \<Rightarrow> int ct | None \<Rightarrow> 0) \<and>
           (cd = punch_date a \<longrightarrow>
              (punch_date a * 86400 + int (punch_time a))
                - (cd * 86400 + (case checkintime r of Some ct \<Rightarrow> int ct | None \<Rightarrow> 0)) \<ge> 3600)"
  from process_checkout_rows [of e a force st]
  consider (same) "?rows' = ?rows"
    | (applied) cr cd sr where
        "find_checkin_for_checkout ?rows (user_id a) (punch_date a) (punch_time a) = Some cr"
        "checkindate cr = Some cd"
        "validate_checkout_time_logic cd (time_val (checkintime cr)) (punch_date a) (PTime (punch_time a))"
        "?rows' = write_checkout a (punch_date a, punch_time a) (snd sr) (fst sr)
                    (userpunchactionid cr) ?rows"
    by blast
  then show ?thesis
  proof cases
    case same
    then show ?thesis by simp
  next
    case applied
    from find_checkin_for_checkout_props [OF applied(1)]
    have cr: "cr \<in> set ?rows" "checkouttime cr = None" by auto
    from applied(3) have ok: "?ok cr cd"
      by (simp add: validate_checkout_time_logic_iff)
    have part1: "r' \<in> set ?rows \<or>
        (\<exists>r \<in> set ?rows. \<exists>cd.
           checkouttime r = None \<and> checkindate r = Some cd \<and>
           userpunchactionid r' = userpunchactionid r \<and>
           checkindate r' = checkindate r \<and> checkintime r' = checkintime r \<and>
           checkoutdate r' = Some (punch_date a) \<and> checkouttime r' = Some (punch_time a) \<and>
           ?ok r cd)" if "r' \<in> set ?rows'" for r'
    proof -
      from that applied(4) obtain r0 where r0: "r0 \<in> set ?rows"
        and r': "r' = (if userpunchactionid r0 = userpunchactionid cr
                 then r0\<lparr>checkouttime := Some (punch_time a),
                      checkoutdate := Some (punch_date a),
                      checkoutdatetime := Some (punch_date a, punch_time a),
                      punchoutid := Some 2,
                      logoutlatitude := Some (- 12605476),
                      logoutlocationid := Some 2,
                      logoutlocationname := Some ''Red Ginger Eatery Ltd'',
                      logoutlongitude := Some 368167960,
                      punchoutreason := Some (snd sr),
                      punchoutstatus := Some (fst sr)\<rparr>
                 else r0)"
        by (auto simp: write_checkout_def)
      show ?thesis
      proof (cases "userpunchactionid r0 = userpunchactionid cr")
        case True
        with assms r0 cr have "r0 = cr" by (intro same_id_same_row)
        with True r' cr applied(2) ok show ?thesis
          by (intro disjI2 bexI [of _ cr] exI [of _ cd]) simp_all
      next
        case False
        with r' r0 show ?thesis by simp
      qed
    qed
    have part2: "r \<in> set ?rows'"
      if "r \<in> set ?rows" "checkouttime r = None" "\<forall>cd. checkindate r = Some cd \<longrightarrow> \<not> ?ok r cd" for r
    proof -
      have "userpunchactionid r \<noteq> userpunchactionid cr"
      proof
        assume "userpunchactionid r = userpunchactionid cr"
        with assms that(1) cr have "r = cr" by (intro same_id_same_row)
        with that(3) applied(2) ok show False by blast
      qed
      with that(1) applied(4) show ?thesis
        by (force simp: write_checkout_def)
    qed
    from part1 part2 show ?thesis by blast
  qed
qed

theorem checkout_time_validated_witness:
  "distinct (map userpunchactionid
      (tgt_rows (ex_state [] [ex_session 1 ''u'' (Some 739464) (Some 32400) None]))) \<and>
   map (\<lambda>r. (checkindate r, checkintime r, checkoutdate r, checkouttime r))
     (tgt_rows (fst (process_checkout (ex_env (739464, 72000)) (ex_event 739464 64800 ''checkout'' ''No'')
        False (ex_state [] [ex_session 1 ''u'' (Some 739464) (Some 32400) None])))) =
     [(Some 739464, Some 32400, Some 739464, Some 64800)] \<and>
   ex_session 1 ''u'' (Some 739464) (Some 32400) None \<in>
     set (tgt_rows (fst (process_checkout (ex_env (739464, 72000)) (ex_event 739464 34200 ''checkout'' ''No'')
        False (ex_state [] [ex_session 1 ''u'' (Some 739464) (Some 32400) None]))))"
proof -
  have d: "distinct (map userpunchactionid
      (tgt_rows (ex_state [] [ex_session 1 ''u'' (Some 739464) (Some 32400) None])))"
    by (simp add: ex_defs)
  have ev: "tgt_rows (fst (process_checkout (ex_env (739464, 72000)) (ex_event 739464 64800 ''checkout'' ''No'')
        False (ex_state [] [ex_session 1 ''u'' (Some 739464) (Some 32400) None]))) =
      [ex_session 1 ''u'' (Some 739464) (Some 32400) (Some (739464, 64800, ''manual''))]"
    by (simp add: rg_eval ex_defs Let_def)
  note t1 = checkout_time_validated [OF d, of "ex_env (739464, 72000)" "ex_event 739464 64800 ''checkout'' ''No''" False]
  note t2 = checkout_time_validated [OF d, of "ex_env (739464, 72000)" "ex_event 739464 34200 ''checkout'' ''No''" False]
  from t2 have "ex_session 1 ''u'' (Some 739464) (Some 32400) None \<in>
     set (tgt_rows (fst (process_checkout (ex_env (739464, 72000)) (ex_event 739464 34200 ''checkout'' ''No'')
        False (ex_state [] [ex_session 1 ''u'' (Some 739464) (Some 32400) None]))))"
    by (simp add: ex_defs)
  with t1 d ev show ?thesis by (simp add: ex_session_def)
qed




subsection \<open>The full cycle on an example\<close>

lemmas cyc_eval = rg_eval ex_defs process_checkin_def mark_migrated_def insert_data_def
  calculate_punch_status_def grace_time_def resolve_overtime_flag_def lower_def lower_char_def
  DEPARTMENT_MAP_def find_checkout_for_checkin_def auto_checkout_time_def auto_checkout_record_def
  get_attendance_logs_by_date_range_def min_date_def users_of_def
  process_attendance_by_date_def handle_cross_day_scenarios_def get_date_range_to_process_def
  process_auto_checkouts_for_incomplete_records_def
  validate_and_cleanup_duplicates_def validate_and_fix_time_anomalies_def
  find_and_fix_mismatched_data_def having_count_gt1_def time_anomaly_def early_checkout_anomaly_def
  orphaned_checkout_def delete_not_min_def Let_def
  ex_cycle_env_def ex_cycle_logs_def ex_row1_def ex_row2_def ex_keys_def

lemma cycle1_cross_day:
  "handle_cross_day_scenarios ex_cycle_env 739464 739467
     \<lparr>src_logs = ex_cycle_logs ''No'' ''No'' ''No'', tgt_rows = [], next_id = 1,
      processed_records = {}, last_sync_time = None\<rparr> =
   \<lparr>src_logs = ex_cycle_logs ''Yes'' ''No'' ''No'', tgt_rows = [ex_row1], next_id = 2,
    processed_records = {(''u'', 739465, 64800, ''checkout''), (''u'', 739464, 32400, ''checkin'')},
    last_sync_time = None\<rparr>"
  by (simp add: cyc_eval)

lemma cycle1_date0:
  "process_attendance_by_date ex_cycle_env 739464
     \<lparr>src_logs = ex_cycle_logs ''Yes'' ''No'' ''No'', tgt_rows = [ex_row1], next_id = 2,
      processed_records = {(''u'', 739465, 64800, ''checkout''), (''u'', 739464, 32400, ''checkin'')},
      last_sync_time = None\<rparr> =
   \<lparr>src_logs = ex_cycle_logs ''Yes'' ''Yes'' ''No'', tgt_rows = [ex_row1, ex_row2 None], next_id = 3,
    processed_records = ex_keys, last_sync_time = None\<rparr>"
  by (simp add: cyc_eval)

lemma cycle1_date1:
  "process_attendance_by_date ex_cycle_env 739465
     \<lparr>src_logs = ex_cycle_logs ''Yes'' ''Yes'' ''No'', tgt_rows = [ex_row1, ex_row2 None], next_id = 3,
      processed_records = ex_keys, last_sync_time = None\<rparr> =
   \<lparr>src_logs = ex_cycle_logs ''Yes'' ''Yes'' ''No'', tgt_rows = [ex_row1, ex_row2 None], next_id = 3,
    processed_records = ex_keys, last_sync_time = None\<rparr>"
  by (simp add: cyc_eval)

lemma cycle1_date2:
  "process_attendance_by_date ex_cycle_env 739466
     \<lparr>src_logs = ex_cycle_logs ''Yes'' ''Yes'' ''No'', tgt_rows = [ex_row1, ex_row2 None], next_id = 3,
      processed_records = ex_keys, last_sync_time = None\<rparr> =
   \<lparr>src_logs = ex_cycle_logs ''Yes'' ''Yes'' ''No'', tgt_rows = [ex_row1, ex_row2 None], next_id = 3,
    processed_records = ex_keys, last_sync_time = None\<rparr>"
  by (simp add: cyc_eval)

lemma cycle1_date3:
  "process_attendance_by_date ex_cycle_env 739467
     \<lparr>src_logs = ex_cycle_logs ''Yes'' ''Yes'' ''No'', tgt_rows = [ex_row1, ex_row2 None], next_id = 3,
      processed_records = ex_keys, last_sync_time = None\<rparr> =
   \<lparr>src_logs = ex_cycle_logs ''Yes'' ''Yes'' ''No'', tgt_rows = [ex_row1, ex_row2 None], next_id = 3,
    processed_records = ex_keys, last_sync_time = None\<rparr>"
  by (simp add: cyc_eval)

lemma cycle1_dates:
  "process_dates ex_cycle_env 739464 739467
     \<lparr>src_logs = ex_cycle_logs ''Yes'' ''No'' ''No'', tgt_rows = [ex_row1], next_id = 2,
      processed_records = {(''u'', 739465, 64800, ''checkout''), (''u'', 739464, 32400, ''checkin'')},
      last_sync_time = None\<rparr> =
   \<lparr>src_logs = ex_cycle_logs ''Yes'' ''Yes'' ''No'', tgt_rows = [ex_row1, ex_row2 None], next_id = 3,
    processed_records = ex_keys, last_sync_time = None\<rparr>"
  by (simp add: cycle1_date0 cycle1_date1 cycle1_date2 cycle1_date3)


lemma cycle1_sweep:
  "process_auto_checkouts_for_incomplete_records ex_cycle_env
     \<lparr>src_logs = ex_cycle_logs ''Yes'' ''Yes'' ''No'', tgt_rows = [ex_row1, ex_row2 None], next_id = 3,
      processed_records = ex_keys, last_sync_time = None\<rparr> =
   \<lparr>src_logs = ex_cycle_logs ''Yes'' ''Yes'' ''Yes'', tgt_rows = [ex_row1, ex_row2 None], next_id = 3,
    processed_records = ex_keys, last_sync_time = None\<rparr>"
  by (simp add: cyc_eval)


lemma ex_rows_clean:
  "find_and_fix_mismatched_data [] = []"
  "validate_and_fix_time_anomalies [] = []"
  "find_and_fix_mismatched_data [ex_row1, ex_row2 co] = [ex_row1, ex_row2 co]"
  "validate_and_fix_time_anomalies [ex_row1, ex_row2 None] = [ex_row1, ex_row2 None]"
  "validate_and_cleanup_duplicates [ex_row1, ex_row2 None] = [ex_row1, ex_row2 None]"
  "validate_and_cleanup_duplicates [ex_row1, ex_row2 (Some (739466, 18000, ''auto''))] =
     [ex_row1, ex_row2 (Some (739466, 18000, ''auto''))]"
  by (simp_all add: cyc_eval)



lemma cycle1:
  "sync_incremental ex_cycle_env
     \<lparr>src_logs = ex_cycle_logs ''No'' ''No'' ''No'', tgt_rows = [], next_id = 1,
      processed_records = {}, last_sync_time = None\<rparr> =
   \<lparr>src_logs = ex_cycle_logs ''Yes'' ''Yes'' ''Yes'', tgt_rows = [ex_row1, ex_row2 None], next_id = 3,
    processed_records = ex_keys, last_sync_time = Some (739467, 43200)\<rparr>"
proof -
  have range: "get_date_range_to_process ex_cycle_env
     \<lparr>src_logs = ex_cycle_logs ''No'' ''No'' ''No'', tgt_rows = [], next_id = 1,
      processed_records = {}, last_sync_time = None\<rparr> = (739464, 739467)"
    by (simp add: get_date_range_to_process_def min_date_def ex_cycle_env_def ex_env_def)
  show ?thesis
    unfolding sync_incremental_def Let_def
    by (simp only: rg_state.simps ex_rows_clean range fst_conv snd_conv cycle1_cross_day
          cycle1_dates cycle1_sweep)
      (simp only: ex_cycle_env_def ex_env_def env.simps)
qed

lemma cycle2_cross_day:
  "handle_cross_day_scenarios ex_cycle_env 739467 739467
     \<lparr>src_logs = ex_cycle_logs ''Yes'' ''Yes'' ''Yes'', tgt_rows = [ex_row1, ex_row2 None], next_id = 3,
      processed_records = ex_keys, last_sync_time = Some (739467, 43200)\<rparr> =
   \<lparr>src_logs = ex_cycle_logs ''Yes'' ''Yes'' ''Yes'', tgt_rows = [ex_row1, ex_row2 None], next_id = 3,
    processed_records = ex_keys, last_sync_time = Some (739467, 43200)\<rparr>"
  by (simp add: cyc_eval)

lemma cycle2_date3:
  "process_attendance_by_date ex_cycle_env 739467
     \<lparr>src_logs = ex_cycle_logs ''Yes'' ''Yes'' ''Yes'', tgt_rows = [ex_row1, ex_row2 None], next_id = 3,
      processed_records = ex_keys, last_sync_time = Some (739467, 43200)\<rparr> =
   \<lparr>src_logs = ex_cycle_logs ''Yes'' ''Yes'' ''Yes'', tgt_rows = [ex_row1, ex_row2 None], next_id = 3,
    processed_records = ex_keys, last_sync_time = Some (739467, 43200)\<rparr>"
  by (simp add: cyc_eval)

lemma cycle2_dates:
  "process_dates ex_cycle_env 739467 739467
     \<lparr>src_logs = ex_cycle_logs ''Yes'' ''Yes'' ''Yes'', tgt_rows = [ex_row1, ex_row2 None], next_id = 3,
      processed_records = ex_keys, last_sync_time = Some (739467, 43200)\<rparr> =
   \<lparr>src_logs = ex_cycle_logs ''Yes'' ''Yes'' ''Yes'', tgt_rows = [ex_row1, ex_row2 None], next_id = 3,
    processed_records = ex_keys, last_sync_time = Some (739467, 43200)\<rparr>"
  by (simp add: cycle2_date3)

lemma cycle2_sweep:
  "process_auto_checkouts_for_incomplete_records ex_cycle_env
     \<lparr>src_logs = ex_cycle_logs ''Yes'' ''Yes'' ''Yes'', tgt_rows = [ex_row1, ex_row2 None], next_id = 3,
      processed_records = ex_keys, last_sync_time = Some (739467, 43200)\<rparr> =
   \<lparr>src_logs = ex_cycle_logs ''Yes'' ''Yes'' ''Yes'',
    tgt_rows = [ex_row1, ex_row2 (Some (739466, 18000, ''auto''))], next_id = 3,
    processed_records = insert (''u'', 739466, 18000, ''checkout'') ex_keys,
    last_sync_time = Some (739467, 43200)\<rparr>"
  by (simp add: cyc_eval)

lemma cycle2:
  "sync_incremental ex_cycle_env
     \<lparr>src_logs = ex_cycle_logs ''Yes'' ''Yes'' ''Yes'', tgt_rows = [ex_row1, ex_row2 None], next_id = 3,
      processed_records = ex_keys, last_sync_time = Some (739467, 43200)\<rparr> =
   \<lparr>src_logs = ex_cycle_logs ''Yes'' ''Yes'' ''Yes'',
    tgt_rows = [ex_row1, ex_row2 (Some (739466, 18000, ''auto''))], next_id = 3,
    processed_records = insert (''u'', 739466, 18000, ''checkout'') ex_keys,
    last_sync_time = Some (739467, 43200)\<rparr>"
proof -
  have range: "get_date_range_to_process ex_cycle_env
     \<lparr>src_logs = ex_cycle_logs ''Yes'' ''Yes'' ''Yes'', tgt_rows = [ex_row1, ex_row2 None], next_id = 3,
      processed_records = ex_keys, last_sync_time = Some (739467, 43200)\<rparr> = (739467, 739467)"
    by (simp add: get_date_range_to_process_def min_date_def ex_cycle_env_def ex_env_def)
  show ?thesis
    unfolding sync_incremental_def Let_def
    by (simp only: rg_state.simps ex_rows_clean range fst_conv snd_conv cycle2_cross_day
          cycle2_dates cycle2_sweep)
      (simp only: ex_cycle_env_def ex_env_def env.simps)
qed

text \<open>
  C1, evaluated. On the example (a checkin on 2025-08-01 without a checkout, a checkin
  and a checkout on 2025-08-02, everything read for the first time on 2025-08-04 at
  noon) the first cycle gives the checkout of 2025-08-02 to the session of 2025-08-01
  and leaves the session of 2025-08-02 open: its checkin finds that checkout event, which
  \<open>process_checkout\<close> absorbs as already processed, and the sweep finds the same
  pending event, absorbs it again and only then flags it. A second cycle with the same
  events and the same clock finds no pending checkout and closes the session of
  2025-08-02 with a forced checkout at 05:00 of 2025-08-03: the session table after two
  cycles is not the one after one cycle.
\<close>

theorem second_cycle_changes_store:
  "map (\<lambda>r. (userpunchactionid r, checkindate r, checkoutdate r, checkouttime r, punchoutstatus r))
     (tgt_rows (sync_incremental ex_cycle_env (ex_state (ex_cycle_logs ''No'' ''No'' ''No'') []))) =
     [(1, Some 739464, Some 739465, Some 64800, Some ''manual''),
      (2, Some 739465, None, None, None)] \<and>
   map (\<lambda>r. (userpunchactionid r, checkindate r, checkoutdate r, checkouttime r, punchoutstatus r))
     (tgt_rows (sync_incremental ex_cycle_env
        (sync_incremental ex_cycle_env (ex_state (ex_cycle_logs ''No'' ''No'' ''No'') [])))) =
     [(1, Some 739464, Some 739465, Some 64800, Some ''manual''),
      (2, Some 739465, Some 739466, Some 18000, Some ''auto'')]"
proof -
  have s0: "ex_state (ex_cycle_logs ''No'' ''No'' ''No'') [] =
     \<lparr>src_logs = ex_cycle_logs ''No'' ''No'' ''No'', tgt_rows = [], next_id = 1,
      processed_records = {}, last_sync_time = None\<rparr>"
    by (simp add: ex_state_def)
  show ?thesis
    unfolding s0 cycle1 cycle2
    by (simp add: ex_row1_def ex_row2_def ex_session_def)
qed

end
